theory Spec2Isabelle
  imports Complex_Main "HOL-Library.AList"
begin

section \<open>Errors (pkg/cloudprovider/aws/errors.go)\<close>

text \<open>
  A Go \<open>error\<close> value is a tree: an AWS SDK error carrying a code, the provider's own
  \<open>InstanceTerminatedError\<close>, the API server's not-found status, a plain message, a
  message wrapping another error (\<open>fmt.Errorf("... %w", err)\<close>) or a \<open>multierr\<close>
  collection. The \<open>nil\<close> error is \<open>None\<close> of \<open>err option\<close>.
\<close>

datatype err =
    AwsError string string
  | InstanceTerminatedError string
  | StatusNotFound string
  | PlainError string
  | Wrapped string err
  | MultiErr "err list"

definition launchTemplateNotFoundCode :: string where
  "launchTemplateNotFoundCode = ''InvalidLaunchTemplateName.NotFoundException''"

definition notFoundErrorCodes :: "string list" where
  "notFoundErrorCodes = [''InvalidInstanceID.NotFound'', launchTemplateNotFoundCode]"

definition unfulfillableCapacityErrorCodes :: "string list" where
  "unfulfillableCapacityErrorCodes =
     [''InsufficientInstanceCapacity'', ''MaxSpotInstanceCountExceeded'', ''VcpuLimitExceeded'',
      ''UnfulfillableCapacity'', ''Unsupported'']"

text \<open>
  \<open>errors.As(err, &awsError)\<close>: the code of the first AWS error met when unwrapping,
  depth first through wrappers and collections.
\<close>

primrec asAwsError :: "err \<Rightarrow> string option"
  and asAwsErrors :: "err list \<Rightarrow> string option" where
  "asAwsError (AwsError code msg) = Some code"
| "asAwsError (InstanceTerminatedError msg) = None"
| "asAwsError (StatusNotFound msg) = None"
| "asAwsError (PlainError msg) = None"
| "asAwsError (Wrapped msg e) = asAwsError e"
| "asAwsError (MultiErr es) = asAwsErrors es"
| "asAwsErrors [] = None"
| "asAwsErrors (e # es) = (case asAwsError e of Some c \<Rightarrow> Some c | None \<Rightarrow> asAwsErrors es)"

text \<open>\<open>errors.As(err, &itErr)\<close> for \<open>InstanceTerminatedError\<close>.\<close>

primrec asInstanceTerminated :: "err \<Rightarrow> bool"
  and asInstanceTerminateds :: "err list \<Rightarrow> bool" where
  "asInstanceTerminated (AwsError code msg) = False"
| "asInstanceTerminated (InstanceTerminatedError msg) = True"
| "asInstanceTerminated (StatusNotFound msg) = False"
| "asInstanceTerminated (PlainError msg) = False"
| "asInstanceTerminated (Wrapped msg e) = asInstanceTerminated e"
| "asInstanceTerminated (MultiErr es) = asInstanceTerminateds es"
| "asInstanceTerminateds [] = False"
| "asInstanceTerminateds (e # es) = (asInstanceTerminated e \<or> asInstanceTerminateds es)"

text \<open>\<open>apierrors.IsNotFound\<close> of the API machinery, which unwraps as \<open>errors.As\<close> does.\<close>

primrec asStatusNotFound :: "err \<Rightarrow> bool"
  and asStatusNotFounds :: "err list \<Rightarrow> bool" where
  "asStatusNotFound (AwsError code msg) = False"
| "asStatusNotFound (InstanceTerminatedError msg) = False"
| "asStatusNotFound (StatusNotFound msg) = True"
| "asStatusNotFound (PlainError msg) = False"
| "asStatusNotFound (Wrapped msg e) = asStatusNotFound e"
| "asStatusNotFound (MultiErr es) = asStatusNotFounds es"
| "asStatusNotFounds [] = False"
| "asStatusNotFounds (e # es) = (asStatusNotFound e \<or> asStatusNotFounds es)"


definition isInstanceTerminated :: "err option \<Rightarrow> bool" where
  "isInstanceTerminated e =
     (case e of None \<Rightarrow> False | Some x \<Rightarrow> asInstanceTerminated x)"

definition isNotFound :: "err option \<Rightarrow> bool" where
  "isNotFound e =
     (case e of
        None \<Rightarrow> False
      | Some x \<Rightarrow> (case asAwsError x of Some c \<Rightarrow> c \<in> set notFoundErrorCodes | None \<Rightarrow> False))"

definition isLaunchTemplateNotFound :: "err option \<Rightarrow> bool" where
  "isLaunchTemplateNotFound e =
     (case e of
        None \<Rightarrow> False
      | Some x \<Rightarrow> (case asAwsError x of Some c \<Rightarrow> c = launchTemplateNotFoundCode | None \<Rightarrow> False))"

text \<open>An error, or \<open>nil\<close>, in which \<open>errors.As\<close> finds no AWS error.\<close>

definition noAwsError :: "err option \<Rightarrow> bool" where
  "noAwsError e = (case e of None \<Rightarrow> True | Some a \<Rightarrow> asAwsError a = None)"

text \<open>\<open>multierr.Append\<close>: a \<open>nil\<close> side is dropped, collections are flattened.\<close>

definition multierrAppend :: "err option \<Rightarrow> err option \<Rightarrow> err option" where
  "multierrAppend l r =
     (case (l, r) of
        (None, _) \<Rightarrow> r
      | (_, None) \<Rightarrow> l
      | (Some (MultiErr xs), Some (MultiErr ys)) \<Rightarrow> Some (MultiErr (xs @ ys))
      | (Some (MultiErr xs), Some y) \<Rightarrow> Some (MultiErr (xs @ [y]))
      | (Some x, Some (MultiErr ys)) \<Rightarrow> Some (MultiErr (x # ys))
      | (Some x, Some y) \<Rightarrow> Some (MultiErr [x, y]))"

section \<open>EC2 instances (the part of the SDK's \<open>ec2.Instance\<close> the provider reads)\<close>

record Instance =
  InstanceId :: string
  PrivateDnsName :: string
  InstanceType :: string
  StateName :: string
  AvailabilityZone :: string
  SpotInstanceRequestId :: "string option"
  ImageId :: string

text \<open>A \<open>DescribeInstances\<close> output: the reservations, each a list of instances.\<close>

type_synonym DescribeInstancesOutput = "Instance list list"

definition InstanceStateNameTerminated :: string where
  "InstanceStateNameTerminated = ''terminated''"

text \<open>
  \<open>InstanceProvider.getInstance\<close> (part_007, l. 303-325). \<open>describe\<close> is the answer
  of \<open>DescribeInstancesWithContext\<close> for the id; \<open>resourceName\<close> says whether the node
  name convention of the options is \<open>ResourceName\<close>.
\<close>

definition getInstance :: "bool \<Rightarrow> err + DescribeInstancesOutput \<Rightarrow> err + Instance" where
  "getInstance resourceName describe =
     (case describe of
        Inl e \<Rightarrow>
          (if isNotFound (Some e) then Inl e
           else Inl (Wrapped ''failed to describe ec2 instances'' e))
      | Inr reservations \<Rightarrow>
          (case reservations of
             [[instance]] \<Rightarrow>
               (if StateName instance = InstanceStateNameTerminated
                then Inl (InstanceTerminatedError ''instance is in terminated state'')
                else if resourceName then Inr instance
                else if length (PrivateDnsName instance) = 0
                then Inl (PlainError ''got instance but PrivateDnsName was not set'')
                else Inr instance)
           | _ \<Rightarrow> Inl (InstanceTerminatedError ''expected instance but got 0'')))"

section \<open>Termination (part_007, l. 111-133)\<close>

text \<open>
  The two EC2 calls \<open>Terminate\<close> makes are inputs of the model: \<open>parsed\<close> is the result
  of \<open>utils.ParseProviderID\<close> on the node, \<open>terminate\<close> the error of
  \<open>TerminateInstancesWithContext\<close> (\<open>None\<close> for \<open>nil\<close>) and \<open>describe\<close> the answer
  of the follow-up \<open>DescribeInstances\<close>. The condition of the inner \<open>if\<close> of the
  source tests the outer \<open>err\<close>, which is not \<open>nil\<close> on that path, so the branch is
  always taken.
\<close>

definition errOf :: "err + 'a \<Rightarrow> err option" where
  "errOf r = (case r of Inl e \<Rightarrow> Some e | Inr _ \<Rightarrow> None)"

definition Terminate ::
  "bool \<Rightarrow> err + string \<Rightarrow> (string \<Rightarrow> err option) \<Rightarrow> (string \<Rightarrow> err + DescribeInstancesOutput)
     \<Rightarrow> err option" where
  "Terminate resourceName parsed terminate describe =
     (case parsed of
        Inl e \<Rightarrow> Some (Wrapped ''getting instance ID for node'' e)
      | Inr iid \<Rightarrow>
          (case terminate iid of
             None \<Rightarrow> None
           | Some e \<Rightarrow>
               (if isNotFound (Some e) then None
                else
                  (let errMsg = errOf (getInstance resourceName (describe iid))
                   in if isInstanceTerminated errMsg \<or> isNotFound errMsg then None
                      else (case multierrAppend (Some e) errMsg of
                              Some e' \<Rightarrow> Some (Wrapped ''terminating instance'' e')
                            | None \<Rightarrow> Some (Wrapped ''terminating instance'' e))))))"

text \<open>
  That the instance no longer exists, read off the two answers of EC2: the terminate call
  fails with a not-found code, or it fails otherwise and the describe call answers with a
  not-found code, with no single instance, or with an instance in the terminated state.
\<close>

definition describeShowsGone :: "err + DescribeInstancesOutput \<Rightarrow> bool" where
  "describeShowsGone d =
     (case d of
        Inl e \<Rightarrow> isNotFound (Some e)
      | Inr reservations \<Rightarrow>
          (case reservations of
             [[instance]] \<Rightarrow> StateName instance = InstanceStateNameTerminated
           | _ \<Rightarrow> True))"

definition instanceGone ::
  "(string \<Rightarrow> err option) \<Rightarrow> (string \<Rightarrow> err + DescribeInstancesOutput) \<Rightarrow> string \<Rightarrow> bool" where
  "instanceGone terminate describe iid =
     (case terminate iid of
        None \<Rightarrow> False
      | Some e \<Rightarrow> isNotFound (Some e) \<or> describeShowsGone (describe iid))"

section \<open>Requirements, offerings and instance types\<close>

text \<open>
  Modelled from the spec: \<open>scheduling.Requirement\<close> and \<open>scheduling.Requirements\<close> belong
  to the core library and are not under src/. A requirement is a set of values or the
  complement of one ("requirements (label selectors and operators)"); \<open>Get\<close> on a key with
  no requirement answers the requirement that admits every value.
\<close>

record Requirement =
  complement :: bool
  vals :: "string list"

definition Has :: "Requirement \<Rightarrow> string \<Rightarrow> bool" where
  "Has r v = (if complement r then v \<notin> set (vals r) else v \<in> set (vals r))"

definition MaxInt64 :: int where
  "MaxInt64 = 9223372036854775807"

definition Len :: "Requirement \<Rightarrow> int" where
  "Len r = (if complement r then MaxInt64 - int (length (remdups (vals r)))
            else int (length (remdups (vals r))))"

definition Exists :: Requirement where
  "Exists = \<lparr>complement = True, vals = []\<rparr>"

type_synonym Requirements = "(string \<times> Requirement) list"

definition Get :: "Requirements \<Rightarrow> string \<Rightarrow> Requirement" where
  "Get reqs key = (case map_of reqs key of None \<Rightarrow> Exists | Some r \<Rightarrow> r)"

definition LabelCapacityType :: string where
  "LabelCapacityType = ''karpenter.sh/capacity-type''"

definition LabelTopologyZone :: string where
  "LabelTopologyZone = ''topology.kubernetes.io/zone''"

definition CapacityTypeSpot :: string where
  "CapacityTypeSpot = ''spot''"

definition CapacityTypeOnDemand :: string where
  "CapacityTypeOnDemand = ''on-demand''"

record Offering =
  Zone :: string
  CapacityType :: string
  Price :: real
  Available :: bool

text \<open>
  The AWS \<open>InstanceType\<close>: its name (the field \<open>InstanceType\<close> of the source), offerings and
  requirements, and what \<open>prioritizeInstanceTypes\<close> reads of it.
\<close>

record InstanceTypeOption =
  Name :: string
  Offerings :: "Offering list"
  ItRequirements :: Requirements
  BareMetal :: bool
  AWSNeuron :: nat
  AMDGPU :: nat
  NVIDIAGPU :: nat

text \<open>\<open>cloudprovider.AvailableOfferings\<close> (core library): the offerings flagged available.\<close>

definition AvailableOfferings :: "InstanceTypeOption \<Rightarrow> Offering list" where
  "AvailableOfferings it = filter Available (Offerings it)"

record NodeRequest =
  TemplateRequirements :: Requirements
  InstanceTypeOptions :: "InstanceTypeOption list"

section \<open>The instance provider (part_007)\<close>

definition MaxInstanceTypes :: nat where
  "MaxInstanceTypes = 20"

text \<open>\<open>InstanceProvider.getCapacityType\<close> (l. 366-380).\<close>

definition getCapacityType :: "NodeRequest \<Rightarrow> string" where
  "getCapacityType nodeRequest =
     (if Has (Get (TemplateRequirements nodeRequest) LabelCapacityType) CapacityTypeSpot \<and>
         list_ex (\<lambda>instanceType.
            list_ex (\<lambda>offering.
               Has (Get (TemplateRequirements nodeRequest) LabelTopologyZone) (Zone offering) \<and>
               CapacityType offering = CapacityTypeSpot)
              (AvailableOfferings instanceType))
           (InstanceTypeOptions nodeRequest)
      then CapacityTypeSpot
      else CapacityTypeOnDemand)"

text \<open>The package-level \<open>getCapacityType\<close> of a launched instance (l. 425-430).\<close>

definition getCapacityTypeOfInstance :: "'a Instance_scheme \<Rightarrow> string" where
  "getCapacityTypeOfInstance instance =
     (case SpotInstanceRequestId instance of
        Some _ \<Rightarrow> CapacityTypeSpot
      | None \<Rightarrow> CapacityTypeOnDemand)"

text \<open>\<open>functional.HasAnyPrefix\<close>.\<close>

definition HasAnyPrefix :: "string \<Rightarrow> string list \<Rightarrow> bool" where
  "HasAnyPrefix s prefixes = list_ex (\<lambda>p. take (length p) s = p) prefixes"

text \<open>\<open>InstanceProvider.prioritizeInstanceTypes\<close> (l. 385-412).\<close>

definition isGeneric :: "InstanceTypeOption \<Rightarrow> bool" where
  "isGeneric it =
     (HasAnyPrefix (Name it) [''m'', ''c'', ''r'', ''a'', ''t'', ''i''] \<and>
      \<not> BareMetal it \<and>
      \<not> (AWSNeuron it \<noteq> 0 \<or> AMDGPU it \<noteq> 0 \<or> NVIDIAGPU it \<noteq> 0))"

definition prioritizeInstanceTypes :: "InstanceTypeOption list \<Rightarrow> InstanceTypeOption list" where
  "prioritizeInstanceTypes instanceTypes =
     (let genericInstanceTypes = filter isGeneric instanceTypes
      in if length genericInstanceTypes \<noteq> 0 then genericInstanceTypes else instanceTypes)"

text \<open>The truncation at the head of \<open>Create\<close> (l. 75-78).\<close>

definition truncateInstanceTypes :: "InstanceTypeOption list \<Rightarrow> InstanceTypeOption list" where
  "truncateInstanceTypes instanceTypes =
     (let prioritized = prioritizeInstanceTypes instanceTypes
      in if length prioritized > MaxInstanceTypes then take MaxInstanceTypes prioritized
         else prioritized)"

subsection \<open>Launch template overrides\<close>

record Subnet =
  SubnetId :: string
  SubnetZone :: string
  AvailableIpAddressCount :: int

record FleetOverride =
  OvInstanceType :: string
  OvSubnetId :: string
  OvAvailabilityZone :: string
  OvPriority :: "nat option"

record FleetLaunchTemplateConfig =
  LaunchTemplateName :: string
  Overrides :: "FleetOverride list"

text \<open>
  \<open>InstanceProvider.getOverrides\<close> (l. 241-301). The subnets are sorted by free addresses
  and the later subnet of a zone replaces the earlier one; the available offerings of all
  options are sorted by price, and an offering becomes an override when its capacity type is
  the requested one, its zone is admitted and the zone has a subnet. \<open>sort.Slice\<close> orders
  equal keys arbitrarily; the model keeps them in their given order.
\<close>

definition zonalSubnets :: "Subnet list \<Rightarrow> (string \<rightharpoonup> Subnet)" where
  "zonalSubnets subnets =
     fold (\<lambda>subnet m. m(SubnetZone subnet \<mapsto> subnet))
       (sort_key AvailableIpAddressCount subnets) Map.empty"

definition unwrappedOfferings :: "InstanceTypeOption list \<Rightarrow> (Offering \<times> string) list" where
  "unwrappedOfferings instanceTypeOptions =
     sort_key (\<lambda>(offering, parent). Price offering)
       (concat (map (\<lambda>it. map (\<lambda>offering. (offering, Name it)) (AvailableOfferings it)) instanceTypeOptions))"

definition getOverrides ::
  "InstanceTypeOption list \<Rightarrow> Subnet list \<Rightarrow> Requirement \<Rightarrow> string \<Rightarrow> FleetOverride list" where
  "getOverrides instanceTypeOptions subnets zones capacityType =
     List.map_filter
       (\<lambda>(i, (offering, parentInstanceTypeName)).
          if capacityType \<noteq> CapacityType offering then None
          else if \<not> Has zones (Zone offering) then None
          else (case zonalSubnets subnets (Zone offering) of
                  None \<Rightarrow> None
                | Some subnet \<Rightarrow>
                    Some \<lparr>OvInstanceType = parentInstanceTypeName,
                          OvSubnetId = SubnetId subnet,
                          OvAvailabilityZone = SubnetZone subnet,
                          OvPriority = (if capacityType = CapacityTypeSpot then Some i else None)\<rparr>))
       (enumerate 0 (unwrappedOfferings instanceTypeOptions))"

subsection \<open>Fleet requests and answers\<close>

record CreateFleetInput =
  DefaultTargetCapacityType :: string
  TotalTargetCapacity :: nat
  LaunchTemplateConfigs :: "FleetLaunchTemplateConfig list"
  AllocationStrategy :: string

text \<open>
  A per-offering error of a fleet answer: its code and message, and the instance type and zone
  of the override it is about.
\<close>

record CreateFleetError =
  ErrorCode :: string
  ErrorMessage :: string
  ErrInstanceType :: string
  ErrAvailabilityZone :: string

record CreateFleetOutput =
  Errors :: "CreateFleetError list"
  Instances :: "string list list"

definition isUnfulfillableCapacity :: "CreateFleetError \<Rightarrow> bool" where
  "isUnfulfillableCapacity e = (ErrorCode e \<in> set unfulfillableCapacityErrorCodes)"

text \<open>
  \<open>combineFleetErrors\<close> (l. 414-423): the distinct "code: message" strings, each a plain
  error, appended one by one and wrapped. With no error at all the wrapped value is \<open>nil\<close>.
\<close>

definition combineFleetErrors :: "CreateFleetError list \<Rightarrow> err" where
  "combineFleetErrors errors =
     (let unique = remdups (map (\<lambda>e. ErrorCode e @ '': '' @ ErrorMessage e) errors);
          errs = fold (\<lambda>errorCode acc. multierrAppend acc (Some (PlainError errorCode))) unique None
      in case errs of
           None \<Rightarrow> PlainError ''with fleet error(s), %!w(<nil>)''
         | Some e \<Rightarrow> Wrapped ''with fleet error(s)'' e)"

subsection \<open>The provider's state and its environment\<close>

record LaunchTemplate =
  LtName :: string
  LtId :: string

text \<open>A launch template as \<open>amifamily.Resolve\<close> answers it: its computed name and types.\<close>

record ResolvedLaunchTemplate =
  ResolvedName :: string
  ResolvedInstanceTypes :: "InstanceTypeOption list"

text \<open>
  The state the provider keeps between calls: the launch template cache, the cache of
  unavailable offerings (keys of capacity type, instance type and zone) and, as a record of
  what happened, the requests \<open>launchInstance\<close> was entered with, oldest first. Cache
  entries do not expire in the model.
\<close>

record ProviderState =
  ltCache :: "string \<rightharpoonup> LaunchTemplate"
  unavailableOfferings :: "(string \<times> string \<times> string) set"
  launches :: "NodeRequest list"

text \<open>
  The environment: every answer of EC2 and of the collaborating providers, as a function of
  the number of the launch attempt (0 for the first call of \<open>launchInstance\<close>), so that the
  cloud may answer the retry differently. \<open>resolveLaunchTemplates\<close> stands for the instance
  profile, security group, server version and AMI family resolution of
  \<open>LaunchTemplateProvider.Get\<close>, whose errors are passed on unchanged;
  \<open>DescribeInstances\<close> takes the number of the \<open>retry.Do\<close> attempt.
\<close>

record Env =
  resourceNameConvention :: bool
  subnetProviderGet :: "nat \<Rightarrow> err + Subnet list"
  resolveLaunchTemplates :: "nat \<Rightarrow> NodeRequest \<Rightarrow> err + ResolvedLaunchTemplate list"
  DescribeLaunchTemplates :: "nat \<Rightarrow> string \<Rightarrow> err + LaunchTemplate list"
  createLaunchTemplate :: "nat \<Rightarrow> string \<Rightarrow> err + LaunchTemplate"
  CreateFleet :: "nat \<Rightarrow> CreateFleetInput \<Rightarrow> err + CreateFleetOutput"
  DescribeInstances :: "nat \<Rightarrow> string \<Rightarrow> err + DescribeInstancesOutput"

text \<open>The AWS provider block of the provisioner: only the literal launch template name.\<close>

record AWS =
  ProviderLaunchTemplateName :: "string option"

subsection \<open>The launch template provider (pkg/cloudprovider/aws/launchtemplate.go)\<close>

text \<open>\<open>LaunchTemplateProvider.ensureLaunchTemplate\<close> (l. 141-171).\<close>

definition ensureLaunchTemplate ::
  "Env \<Rightarrow> nat \<Rightarrow> ProviderState \<Rightarrow> string \<Rightarrow> (err + LaunchTemplate) \<times> ProviderState" where
  "ensureLaunchTemplate env k st name =
     (case ltCache st name of
        Some launchTemplate \<Rightarrow> (Inr launchTemplate, st)
      | None \<Rightarrow>
          (let found =
             (case DescribeLaunchTemplates env k name of
                Inl e \<Rightarrow>
                  (if isNotFound (Some e)
                   then (case createLaunchTemplate env k name of
                           Inl e' \<Rightarrow> Inl (Wrapped ''creating launch template'' e')
                         | Inr lt \<Rightarrow> Inr lt)
                   else Inl (Wrapped ''describing launch templates'' e))
              | Inr lts \<Rightarrow>
                  (case lts of
                     [lt] \<Rightarrow> Inr lt
                   | _ \<Rightarrow> Inl (PlainError ''expected to find one launch template'')))
           in case found of
                Inl e \<Rightarrow> (Inl e, st)
              | Inr lt \<Rightarrow> (Inr lt, st\<lparr>ltCache := (ltCache st)(name \<mapsto> lt)\<rparr>)))"

text \<open>
  The loop of \<open>LaunchTemplateProvider.Get\<close> (l. 128-137) over the resolved templates; the
  answer maps launch template names to instance types, a later entry of a name replacing the
  earlier one.
\<close>

fun ensureAll ::
  "Env \<Rightarrow> nat \<Rightarrow> ProviderState \<Rightarrow> ResolvedLaunchTemplate list
     \<Rightarrow> (string \<times> InstanceTypeOption list) list
     \<Rightarrow> (err + (string \<times> InstanceTypeOption list) list) \<times> ProviderState" where
  "ensureAll env k st [] launchTemplates = (Inr launchTemplates, st)"
| "ensureAll env k st (resolved # rest) launchTemplates =
     (case ensureLaunchTemplate env k st (ResolvedName resolved) of
        (Inl e, st') \<Rightarrow> (Inl e, st')
      | (Inr lt, st') \<Rightarrow>
          ensureAll env k st' rest
            (AList.update (LtName lt) (ResolvedInstanceTypes resolved) launchTemplates))"

text \<open>\<open>LaunchTemplateProvider.Get\<close> (l. 95-139).\<close>

definition launchTemplateProviderGet ::
  "Env \<Rightarrow> nat \<Rightarrow> ProviderState \<Rightarrow> AWS \<Rightarrow> NodeRequest
     \<Rightarrow> (err + (string \<times> InstanceTypeOption list) list) \<times> ProviderState" where
  "launchTemplateProviderGet env k st provider nodeRequest =
     (case ProviderLaunchTemplateName provider of
        Some name \<Rightarrow> (Inr [(name, InstanceTypeOptions nodeRequest)], st)
      | None \<Rightarrow>
          (case resolveLaunchTemplates env k nodeRequest of
             Inl e \<Rightarrow> (Inl e, st)
           | Inr resolvedLaunchTemplates \<Rightarrow> ensureAll env k st resolvedLaunchTemplates []))"

text \<open>\<open>LaunchTemplateProvider.Invalidate\<close> (l. 245-252).\<close>

definition Invalidate :: "ProviderState \<Rightarrow> string \<Rightarrow> ProviderState" where
  "Invalidate st ltName = st\<lparr>ltCache := (ltCache st)(ltName := None)\<rparr>"

subsection \<open>Launching\<close>

text \<open>
  \<open>InstanceProvider.getLaunchTemplateConfigs\<close> (l. 210-237). The launch templates are
  visited in the order of the answer of \<open>Get\<close> (Go visits a map in no fixed order).
\<close>

definition getLaunchTemplateConfigs ::
  "Env \<Rightarrow> nat \<Rightarrow> ProviderState \<Rightarrow> AWS \<Rightarrow> NodeRequest \<Rightarrow> string
     \<Rightarrow> (err + FleetLaunchTemplateConfig list) \<times> ProviderState" where
  "getLaunchTemplateConfigs env k st provider nodeRequest capacityType =
     (case subnetProviderGet env k of
        Inl e \<Rightarrow> (Inl (Wrapped ''getting subnets'' e), st)
      | Inr subnets \<Rightarrow>
          (case launchTemplateProviderGet env k st provider nodeRequest of
             (Inl e, st') \<Rightarrow> (Inl (Wrapped ''getting launch templates'' e), st')
           | (Inr launchTemplates, st') \<Rightarrow>
               (let launchTemplateConfigs =
                      filter (\<lambda>c. length (Overrides c) > 0)
                        (map (\<lambda>(launchTemplateName, instanceTypes).
                                \<lparr>LaunchTemplateName = launchTemplateName,
                                 Overrides = getOverrides instanceTypes subnets
                                   (Get (TemplateRequirements nodeRequest) LabelTopologyZone)
                                   capacityType\<rparr>)
                           launchTemplates)
                in if length launchTemplateConfigs = 0
                   then (Inl (PlainError
                     ''no capacity offerings are currently available given the constraints''), st')
                   else (Inr launchTemplateConfigs, st'))))"

text \<open>
  Modelled from the spec: \<open>InstanceTypeProvider.CacheUnavailable\<close> is not under src/. "The
  affected offering is cached as unavailable": the offering of the error's instance type and
  zone, for the capacity type of the request, enters the cache.
\<close>

definition CacheUnavailable :: "ProviderState \<Rightarrow> CreateFleetError \<Rightarrow> string \<Rightarrow> ProviderState" where
  "CacheUnavailable st fleetErr capacityType =
     st\<lparr>unavailableOfferings :=
          insert (capacityType, ErrInstanceType fleetErr, ErrAvailabilityZone fleetErr)
            (unavailableOfferings st)\<rparr>"

text \<open>\<open>InstanceProvider.updateUnavailableOfferingsCache\<close> (l. 358-364).\<close>

fun updateUnavailableOfferingsCache ::
  "ProviderState \<Rightarrow> CreateFleetError list \<Rightarrow> string \<Rightarrow> ProviderState" where
  "updateUnavailableOfferingsCache st [] capacityType = st"
| "updateUnavailableOfferingsCache st (e # errors) capacityType =
     updateUnavailableOfferingsCache
       (if isUnfulfillableCapacity e then CacheUnavailable st e capacityType else st)
       errors capacityType"

definition SpotAllocationStrategyCapacityOptimizedPrioritized :: string where
  "SpotAllocationStrategyCapacityOptimizedPrioritized = ''capacity-optimized-prioritized''"

definition FleetOnDemandAllocationStrategyLowestPrice :: string where
  "FleetOnDemandAllocationStrategyLowestPrice = ''lowest-price''"

definition createFleetInput :: "string \<Rightarrow> FleetLaunchTemplateConfig list \<Rightarrow> CreateFleetInput" where
  "createFleetInput capacityType launchTemplateConfigs =
     \<lparr>DefaultTargetCapacityType = capacityType,
      TotalTargetCapacity = 1,
      LaunchTemplateConfigs = launchTemplateConfigs,
      AllocationStrategy =
        (if capacityType = CapacityTypeSpot then SpotAllocationStrategyCapacityOptimizedPrioritized
         else FleetOnDemandAllocationStrategyLowestPrice)\<rparr>"

text \<open>
  \<open>InstanceProvider.launchInstance\<close> (l. 135-186). The number of the attempt is the number
  of earlier entries; \<open>checkODFallback\<close> only writes a warning to the log and the tags do
  not bear on the result, so both are left out. The fleet batcher is taken to pass the request
  on to EC2 and to hand its answer back.
\<close>

definition launchInstance ::
  "Env \<Rightarrow> ProviderState \<Rightarrow> AWS \<Rightarrow> NodeRequest \<Rightarrow> (err + string) \<times> ProviderState" where
  "launchInstance env st0 provider nodeRequest =
     (let k = length (launches st0);
          st = st0\<lparr>launches := launches st0 @ [nodeRequest]\<rparr>;
          capacityType = getCapacityType nodeRequest
      in case getLaunchTemplateConfigs env k st provider nodeRequest capacityType of
           (Inl e, st1) \<Rightarrow> (Inl (Wrapped ''getting launch template configs'' e), st1)
         | (Inr launchTemplateConfigs, st1) \<Rightarrow>
             (case CreateFleet env k (createFleetInput capacityType launchTemplateConfigs) of
                Inl e \<Rightarrow>
                  (if isLaunchTemplateNotFound (Some e)
                   then (Inl (Wrapped ''creating fleet'' e),
                         fold (\<lambda>lt s. Invalidate s (LaunchTemplateName lt)) launchTemplateConfigs st1)
                   else (Inl (Wrapped ''creating fleet'' e), st1))
              | Inr createFleetOutput \<Rightarrow>
                  (let st2 = updateUnavailableOfferingsCache st1 (Errors createFleetOutput) capacityType
                   in case Instances createFleetOutput of
                        [] \<Rightarrow> (Inl (combineFleetErrors (Errors createFleetOutput)), st2)
                      | instanceIds # _ \<Rightarrow>
                          (case instanceIds of
                             [] \<Rightarrow> (Inl (combineFleetErrors (Errors createFleetOutput)), st2)
                           | iid # _ \<Rightarrow> (Inr iid, st2)))))"

subsection \<open>From the instance to the node\<close>

text \<open>
  \<open>retry.Do\<close> with a number of attempts and \<open>LastErrorOnly\<close>: the first success ends it,
  and after the last attempt its error is the result. The delays between attempts are not
  modelled.
\<close>

fun retryDo :: "nat \<Rightarrow> (nat \<Rightarrow> err + 'a) \<Rightarrow> nat \<Rightarrow> err + 'a" where
  "retryDo 0 f j = Inl (PlainError ''no attempts'')"
| "retryDo (Suc n) f j =
     (case f j of
        Inr x \<Rightarrow> Inr x
      | Inl e \<Rightarrow> (if n = 0 then Inl e else retryDo n f (Suc j)))"

record Node =
  NodeName :: string
  Labels :: "string \<rightharpoonup> string"
  ProviderID :: string

text \<open>\<open>strings.ToLower\<close> on the ASCII letters.\<close>

definition toLowerChar :: "char \<Rightarrow> char" where
  "toLowerChar c =
     (let n = (of_char c :: nat) in if 65 \<le> n \<and> n \<le> 90 then char_of (n + 32) else c)"

definition ToLower :: "string \<Rightarrow> string" where
  "ToLower s = map toLowerChar s"

text \<open>The labels of the single-valued requirements of an instance type (l. 335-340).\<close>

definition requirementLabels :: "Requirements \<Rightarrow> (string \<rightharpoonup> string)" where
  "requirementLabels reqs =
     fold (\<lambda>(key, req) labels.
             (case remdups (vals req) of
                [v] \<Rightarrow> (if Len req = 1 then labels(key \<mapsto> v) else labels)
              | _ \<Rightarrow> labels))
       reqs Map.empty"

text \<open>
  What a call returns: a value, an error, or a panic that unwinds the goroutine.
\<close>

datatype 'a outcome = Returned 'a | Failed err | Panicked string

text \<open>\<open>InstanceProvider.instanceToNode\<close> (l. 327-356).\<close>

fun instanceToNode :: "bool \<Rightarrow> Instance \<Rightarrow> InstanceTypeOption list \<Rightarrow> Node outcome" where
  "instanceToNode resourceName instance [] =
     Panicked (''unrecognized instance type '' @ InstanceType instance)"
| "instanceToNode resourceName instance (instanceType # instanceTypes) =
     (if Name instanceType = InstanceType instance
      then Returned
        \<lparr>NodeName = (if resourceName then InstanceId instance
                      else ToLower (PrivateDnsName instance)),
         Labels = (requirementLabels (ItRequirements instanceType))
           (LabelTopologyZone \<mapsto> AvailabilityZone instance,
            LabelCapacityType \<mapsto> getCapacityTypeOfInstance instance),
         ProviderID = ''aws:///'' @ AvailabilityZone instance @ ''/'' @ InstanceId instance\<rparr>
      else instanceToNode resourceName instance instanceTypes)"

text \<open>
  \<open>InstanceProvider.Create\<close> (l. 74-109). \<open>truncated\<close> is the request after the
  assignments at the head of the function.
\<close>

definition truncated :: "NodeRequest \<Rightarrow> NodeRequest" where
  "truncated nodeRequest =
     nodeRequest\<lparr>InstanceTypeOptions := truncateInstanceTypes (InstanceTypeOptions nodeRequest)\<rparr>"

definition Create ::
  "Env \<Rightarrow> ProviderState \<Rightarrow> AWS \<Rightarrow> NodeRequest \<Rightarrow> Node outcome \<times> ProviderState" where
  "Create env st provider nodeRequest0 =
     (let nodeRequest = truncated nodeRequest0;
          (r1, st1) = launchInstance env st provider nodeRequest;
          (r, st2) = (if isLaunchTemplateNotFound (errOf r1)
                      then launchInstance env st1 provider nodeRequest
                      else (r1, st1))
      in case r of
           Inl e \<Rightarrow> (Failed e, st2)
         | Inr iid \<Rightarrow>
             (case retryDo 6 (\<lambda>j. getInstance (resourceNameConvention env)
                                     (DescribeInstances env j iid)) 0 of
                Inl e \<Rightarrow> (Failed (Wrapped ''retrieving node name for instance'' e), st2)
              | Inr instance \<Rightarrow>
                  (instanceToNode (resourceNameConvention env) instance
                     (InstanceTypeOptions nodeRequest), st2)))"

section \<open>Drift of a machine's image (pkg/cloudprovider/cloudprovider.go)\<close>












section \<open>Single-node consolidation (pkg/controllers/controllers.go, package consolidation)\<close>

datatype consolidateResult =
    consolidateResultUnknown
  | consolidateResultNotPossible
  | consolidateResultDelete
  | consolidateResultDeleteEmpty
  | consolidateResultReplace
  | consolidateResultNoAction


record candidateNode =
  CandidateName :: string
  instanceType :: InstanceTypeOption
  capacityType :: string
  zone :: string
  pods :: "string list"







section \<open>Disruption budgets\<close>

text \<open>
  Modelled from the spec: the budget calculator is not under src/ (the repository holds its
  documentation, part_000, "NodePool Disruption Budgets"). A budget has \<open>nodes\<close>, "integer
  or percentage string", \<open>reasons\<close>, a "subset of {Drifted, Underutilized, Empty} (empty set
  = applies to all)", and an "optional schedule (cron in UTC) + duration". The cron expression
  is kept as the function it denotes: the first firing time after a given time. Times and
  durations are whole seconds.
\<close>

datatype Reason = Drifted | Underutilized | Empty

datatype NodesValue = Percentage nat | AbsoluteNodes nat

record Schedule =
  nextAfter :: "int \<Rightarrow> int"
  duration :: int

record Budget =
  nodes :: NodesValue
  reasons :: "Reason list"
  schedule :: "Schedule option"

text \<open>The numbers the calculator reads of a pool.\<close>

record PoolCounts =
  total_pool_nodes :: nat
  deleting :: nat
  notReady :: nat

text \<open>
  Modelled from the spec: "Active budget set = budgets of P with r in reasons (or reasons
  empty) and (schedule unset, or t lies in some (schedule.nextAfter(t - duration),
  schedule.nextAfter(t - duration) + duration))". The window begins with the firing time, "a
  starting point where the budget will begin being enforced" (part_000, l. 333), and ends
  before the duration is over.
\<close>

definition isActive :: "Reason \<Rightarrow> int \<Rightarrow> Budget \<Rightarrow> bool" where
  "isActive r t b =
     ((reasons b = [] \<or> r \<in> set (reasons b)) \<and>
      (case schedule b of
         None \<Rightarrow> True
       | Some sch \<Rightarrow>
           (let start = nextAfter sch (t - duration sch)
            in start \<le> t \<and> t < start + duration sch)))"

text \<open>
  Modelled from the spec: "allowed = ceil(total_pool_nodes x pct) - (deleting + notReady) if
  percentage, else allowed = absolute - (deleting + notReady)". The ceiling of a percentage
  of a whole number is computed in whole numbers.
\<close>

definition scaledNodes :: "NodesValue \<Rightarrow> nat \<Rightarrow> int" where
  "scaledNodes v totalNodes =
     (case v of
        Percentage pct \<Rightarrow> (int totalNodes * int pct + 99) div 100
      | AbsoluteNodes n \<Rightarrow> int n)"

definition allowed :: "PoolCounts \<Rightarrow> Budget \<Rightarrow> int" where
  "allowed c b = scaledNodes (nodes b) (total_pool_nodes c) - (int (deleting c) + int (notReady c))"

text \<open>Modelled from the spec: "If no budgets: default single budget 10% applied to all reasons".\<close>

definition defaultBudget :: Budget where
  "defaultBudget = \<lparr>nodes = Percentage 10, reasons = [], schedule = None\<rparr>"

text \<open>
  Modelled from the spec: "Return min(allowed) over the active set, clamped to >= 0". The spec
  gives no value for an active set that is empty, which is \<open>None\<close> here: no budget bounds
  the disruption.
\<close>

fun minAllowed :: "PoolCounts \<Rightarrow> Budget list \<Rightarrow> int option \<Rightarrow> int option" where
  "minAllowed c [] acc = acc"
| "minAllowed c (b # bs) acc =
     minAllowed c bs
       (case acc of
          None \<Rightarrow> Some (allowed c b)
        | Some m \<Rightarrow> Some (if allowed c b < m then allowed c b else m))"

definition allowedDisruptions :: "Budget list \<Rightarrow> PoolCounts \<Rightarrow> Reason \<Rightarrow> int \<Rightarrow> int option" where
  "allowedDisruptions budgets c r t =
     (let bs = (if budgets = [] then [defaultBudget] else budgets)
      in case minAllowed c (filter (isActive r t) bs) None of
           None \<Rightarrow> None
         | Some m \<Rightarrow> Some (if m < 0 then 0 else m))"

text \<open>
  The budget calculation in the words of the spec, for comparison: the ceiling of a real
  product, and the least element of a set.
\<close>

definition allowed_spec :: "PoolCounts \<Rightarrow> Budget \<Rightarrow> int" where
  "allowed_spec c b =
     (case nodes b of
        Percentage pct \<Rightarrow>
          \<lceil>real (total_pool_nodes c) * (real pct / 100)\<rceil> - (int (deleting c) + int (notReady c))
      | AbsoluteNodes n \<Rightarrow> int n - (int (deleting c) + int (notReady c)))"

definition activeBudgets :: "Budget list \<Rightarrow> Reason \<Rightarrow> int \<Rightarrow> Budget set" where
  "activeBudgets budgets r t =
     {b \<in> set (if budgets = [] then [defaultBudget] else budgets). isActive r t b}"

section \<open>Draining under a termination grace period\<close>

text \<open>
  Modelled from the spec: the termination controller is not under src/ (only its test suite
  and the documentation, part_000, "TerminationGracePeriod", are). The states are those of
  the termination state machine; times are whole seconds.
\<close>

datatype Phase = Idle | Tainted | Draining | CloudTerminating | Finalized

text \<open>
  A pod on the node: its own grace period, whether it carries the do-not-disrupt annotation,
  whether a disruption budget blocks its eviction, and whether it is one of the pods that are
  never evicted (static, tolerating the disruption taint, succeeded or failed).
\<close>

record Pod =
  podName :: string
  terminationGracePeriodSeconds :: int
  doNotDisrupt :: bool
  blockedByPDB :: bool
  notEvicted :: bool

text \<open>A forced deletion: the pod, the time of the deletion and the grace period granted.\<close>

record Deletion =
  deletedPod :: string
  deletedAt :: int
  grantedGrace :: int

record Termination =
  phase :: Phase
  drainStart :: int
  terminationGracePeriod :: "int option"
  remaining :: "Pod list"
  evictionsIssued :: "string list"
  forceDeleted :: "Deletion list"
  terminateRequestedAt :: "int option"
  instanceAlreadyGone :: bool

text \<open>
  Modelled from the spec: "at drainStart + (terminationGracePeriod - 
  pod.terminationGracePeriodSeconds) the controller force-deletes any remaining pod".
\<close>

definition forceDeleteTime :: "int \<Rightarrow> int \<Rightarrow> Pod \<Rightarrow> int" where
  "forceDeleteTime start grace p = start + (grace - terminationGracePeriodSeconds p)"

text \<open>
  Modelled from the spec: "Pods whose requested grace exceeds the node grace get truncated to
  the node's limit".
\<close>

definition truncatedGrace :: "int \<Rightarrow> Pod \<Rightarrow> int" where
  "truncatedGrace grace p =
     (if terminationGracePeriodSeconds p > grace then grace else terminationGracePeriodSeconds p)"

text \<open>
  Modelled from the spec: the graceful path issues evictions for "each pod not in {static,
  tolerates-disrupted-taint, succeeded, failed}, honoring PDBs. Pods carrying do-not-disrupt
  annotation are not evicted here". The drain waits for every pod outside that set, annotated
  or not: in scenario S5 the node stays in \<open>Draining\<close> while only the annotated pod is left.
\<close>

definition evictable :: "Pod \<Rightarrow> bool" where
  "evictable p = (\<not> notEvicted p \<and> \<not> doNotDisrupt p)"

definition waitedFor :: "Pod \<Rightarrow> bool" where
  "waitedFor p = (\<not> notEvicted p)"

text \<open>
  Modelled from the spec: the forced deletions of a step at time \<open>t\<close>. A pod is due when
  the node has a grace period and the pod's time has come; a pod that is due leaves the
  remaining pods and is recorded with the grace it is granted, and it is gone when that grace
  has run out.
\<close>

definition due :: "int \<Rightarrow> Termination \<Rightarrow> Pod \<Rightarrow> bool" where
  "due t m p =
     (case terminationGracePeriod m of
        None \<Rightarrow> False
      | Some grace \<Rightarrow> forceDeleteTime (drainStart m) grace p \<le> t)"

definition forceDelete :: "int \<Rightarrow> Termination \<Rightarrow> Termination" where
  "forceDelete t m =
     (case terminationGracePeriod m of
        None \<Rightarrow> m
      | Some grace \<Rightarrow>
          m\<lparr>remaining := filter (\<lambda>p. \<not> due t m p) (remaining m),
            forceDeleted := forceDeleted m @
              map (\<lambda>p. \<lparr>deletedPod = podName p, deletedAt = t,
                         grantedGrace = truncatedGrace grace p\<rparr>)
                (filter (due t m) (remaining m))\<rparr>)"

definition stillTerminating :: "int \<Rightarrow> Deletion \<Rightarrow> bool" where
  "stillTerminating t d = (t < deletedAt d + grantedGrace d)"

definition graceElapsed :: "int \<Rightarrow> Termination \<Rightarrow> bool" where
  "graceElapsed t m =
     (case terminationGracePeriod m of
        None \<Rightarrow> False
      | Some grace \<Rightarrow> drainStart m + grace \<le> t)"

text \<open>
  Modelled from the spec: one step of the termination state machine at time \<open>t\<close>.
  \<open>Idle\<close> taints and records \<open>drainStart\<close>; \<open>Tainted\<close> issues the evictions;
  \<open>Draining\<close> finishes at once when the instance is already gone, else force-deletes the
  pods that are due and moves on "when all evictable pods are gone or drainStart +
  terminationGracePeriod has elapsed", asking the cloud to terminate the instance;
  \<open>CloudTerminating\<close> removes the finalizer.
\<close>

definition step :: "int \<Rightarrow> Termination \<Rightarrow> Termination" where
  "step t m =
     (case phase m of
        Idle \<Rightarrow> m\<lparr>phase := Tainted, drainStart := t\<rparr>
      | Tainted \<Rightarrow>
          m\<lparr>phase := Draining,
            evictionsIssued := map podName (filter evictable (remaining m))\<rparr>
      | Draining \<Rightarrow>
          (if instanceAlreadyGone m then m\<lparr>phase := Finalized\<rparr>
           else
             (let m' = forceDelete t m
              in if (filter waitedFor (remaining m') = [] \<and>
                     filter (stillTerminating t) (forceDeleted m') = []) \<or>
                    graceElapsed t m
                 then m'\<lparr>phase := CloudTerminating, terminateRequestedAt := Some t\<rparr>
                 else m'))
      | CloudTerminating \<Rightarrow> m\<lparr>phase := Finalized\<rparr>
      | Finalized \<Rightarrow> m)"

section \<open>Example values\<close>

text \<open>Concrete values on which the theorems below are instantiated.\<close>

definition exOffering :: Offering where
  "exOffering = \<lparr>Zone = ''us-west-2a'', CapacityType = ''spot'', Price = 1, Available = True\<rparr>"

definition exInstanceType :: InstanceTypeOption where
  "exInstanceType = \<lparr>Name = ''m5.large'', Offerings = [exOffering], ItRequirements = [],
     BareMetal = False, AWSNeuron = 0, AMDGPU = 0, NVIDIAGPU = 0\<rparr>"

definition exRequest :: NodeRequest where
  "exRequest = \<lparr>TemplateRequirements = [], InstanceTypeOptions = [exInstanceType]\<rparr>"

definition exSubnet :: Subnet where
  "exSubnet = \<lparr>SubnetId = ''subnet-1'', SubnetZone = ''us-west-2a'', AvailableIpAddressCount = 10\<rparr>"

definition exStale :: LaunchTemplate where
  "exStale = \<lparr>LtName = ''lt-1'', LtId = ''lt-old''\<rparr>"

definition exInstance :: Instance where
  "exInstance = \<lparr>InstanceId = ''i-1'', PrivateDnsName = ''IP-1.internal'', InstanceType = ''m5.large'',
     StateName = ''running'', AvailabilityZone = ''us-west-2a'', SpotInstanceRequestId = Some ''sir-1'',
     ImageId = ''ami-1''\<rparr>"

definition exNotFound :: err where
  "exNotFound = AwsError launchTemplateNotFoundCode ''gone''"

text \<open>
  An environment in which the cached launch template \<open>lt-1\<close> has been deleted behind the
  provider's back: every fleet call answers that the launch template is not found.
\<close>

definition exEnvStale :: Env where
  "exEnvStale = \<lparr>resourceNameConvention = False,
     subnetProviderGet = (\<lambda>k. Inr [exSubnet]),
     resolveLaunchTemplates = (\<lambda>k r. Inr [\<lparr>ResolvedName = ''lt-1'',
        ResolvedInstanceTypes = InstanceTypeOptions r\<rparr>]),
     DescribeLaunchTemplates = (\<lambda>k name. Inr [\<lparr>LtName = name, LtId = ''lt-new''\<rparr>]),
     createLaunchTemplate = (\<lambda>k name. Inr \<lparr>LtName = name, LtId = ''lt-new''\<rparr>),
     CreateFleet = (\<lambda>k input. Inl exNotFound),
     DescribeInstances = (\<lambda>j iid. Inr [[exInstance]])\<rparr>"

definition exState :: ProviderState where
  "exState = \<lparr>ltCache = [''lt-1'' \<mapsto> exStale], unavailableOfferings = {}, launches = []\<rparr>"

definition exProvider :: AWS where
  "exProvider = \<lparr>ProviderLaunchTemplateName = None\<rparr>"

definition exConfigs :: "FleetLaunchTemplateConfig list" where
  "exConfigs = [\<lparr>LaunchTemplateName = ''lt-1'',
     Overrides = [\<lparr>OvInstanceType = ''m5.large'', OvSubnetId = ''subnet-1'',
       OvAvailabilityZone = ''us-west-2a'', OvPriority = Some 0\<rparr>]\<rparr>]"

text \<open>
  An environment whose fleet call launches nothing and reports two errors, one for lack of
  capacity and one of another kind.
\<close>

definition exFleetErrors :: "CreateFleetError list" where
  "exFleetErrors =
     [\<lparr>ErrorCode = ''InsufficientInstanceCapacity'', ErrorMessage = ''no capacity'',
       ErrInstanceType = ''m5.large'', ErrAvailabilityZone = ''us-west-2a''\<rparr>,
      \<lparr>ErrorCode = ''InvalidParameterValue'', ErrorMessage = ''bad value'',
       ErrInstanceType = ''c5.large'', ErrAvailabilityZone = ''us-west-2b''\<rparr>]"

definition exEnvNoCapacity :: Env where
  "exEnvNoCapacity = exEnvStale\<lparr>CreateFleet :=
     (\<lambda>k input. Inr \<lparr>Errors = exFleetErrors, Instances = []\<rparr>)\<rparr>"

text \<open>An environment whose fleet call launches the instance \<open>i-1\<close>.\<close>

definition exEnvLaunch :: Env where
  "exEnvLaunch = exEnvStale\<lparr>CreateFleet :=
     (\<lambda>k input. Inr \<lparr>Errors = [], Instances = [[''i-1'']]\<rparr>)\<rparr>"

text \<open>A request with 25 options, and one whose only spot offering is not available.\<close>

definition exManyRequest :: NodeRequest where
  "exManyRequest = \<lparr>TemplateRequirements = [], InstanceTypeOptions = replicate 25 exInstanceType\<rparr>"

definition exUnavailableRequest :: NodeRequest where
  "exUnavailableRequest = \<lparr>TemplateRequirements = [],
     InstanceTypeOptions = [exInstanceType\<lparr>Offerings := [exOffering\<lparr>Available := False\<rparr>]\<rparr>]\<rparr>"

text \<open>
  Two calls of \<open>Terminate\<close> for an instance that is gone: the first terminate call is
  answered with the not-found code; the second with an internal error, after which the
  describe call finds no reservation.
\<close>

definition exTerminate :: "nat \<Rightarrow> string \<Rightarrow> err option" where
  "exTerminate k iid =
     (if k = 0 then Some (AwsError ''InvalidInstanceID.NotFound'' ''no such instance'')
      else Some (AwsError ''InternalError'' ''try again''))"

definition exDescribe :: "nat \<Rightarrow> string \<Rightarrow> err + DescribeInstancesOutput" where
  "exDescribe k iid = Inr []"









text \<open>
  Scenario S2: a pool of 19 nodes with the budget \<open>20%\<close> for the reasons Empty and
  Drifted. Scenario S3: a budget of no nodes in the ten minutes after midnight, for
  Underutilized.
\<close>

definition exBudgetS2 :: Budget where
  "exBudgetS2 = \<lparr>nodes = Percentage 20, reasons = [Empty, Drifted], schedule = None\<rparr>"

definition exCountsS2 :: PoolCounts where
  "exCountsS2 = \<lparr>total_pool_nodes = 19, deleting = 0, notReady = 0\<rparr>"

definition exDaily :: Schedule where
  "exDaily = \<lparr>nextAfter = (\<lambda>t. (t div 86400 + 1) * 86400), duration = 600\<rparr>"

definition exBudgetS3 :: Budget where
  "exBudgetS3 = \<lparr>nodes = AbsoluteNodes 0, reasons = [Underutilized], schedule = Some exDaily\<rparr>"

text \<open>
  Scenario S5: a node with a grace period of one hour that began to drain at time 1000 and
  carries the pod \<open>P\<close>, annotated do-not-disrupt, with a grace period of 300 seconds.
\<close>

definition exPod :: Pod where
  "exPod = \<lparr>podName = ''P'', terminationGracePeriodSeconds = 300, doNotDisrupt = True,
     blockedByPDB = True, notEvicted = False\<rparr>"

definition exDraining :: Termination where
  "exDraining = \<lparr>phase = Draining, drainStart = 1000, terminationGracePeriod = Some 3600,
     remaining = [exPod], evictionsIssued = [], forceDeleted = [], terminateRequestedAt = None,
     instanceAlreadyGone = False\<rparr>"

section \<open>Properties of the instance provider\<close>

subsection \<open>Errors\<close>

lemma asAwsErrors_append:
  "asAwsErrors (xs @ ys) = (case asAwsErrors xs of Some c \<Rightarrow> Some c | None \<Rightarrow> asAwsErrors ys)"
  by (induction xs) (simp_all split: option.splits)

lemma noAwsError_append_plain:
  "noAwsError acc \<Longrightarrow> noAwsError (multierrAppend acc (Some (PlainError m)))"
  by (cases acc; cases "the acc")
     (auto simp: noAwsError_def multierrAppend_def asAwsErrors_append split: option.splits)

lemma noAwsError_fold_plain:
  "noAwsError acc \<Longrightarrow>
   noAwsError (fold (\<lambda>m acc. multierrAppend acc (Some (PlainError m))) ms acc)"
  by (induction ms arbitrary: acc) (simp_all add: noAwsError_append_plain)

lemma combineFleetErrors_not_lt_not_found:
  "\<not> isLaunchTemplateNotFound (Some (combineFleetErrors errors))"
proof -
  have "noAwsError (fold (\<lambda>m acc. multierrAppend acc (Some (PlainError m)))
          (remdups (map (\<lambda>e. ErrorCode e @ '': '' @ ErrorMessage e) errors)) None)"
    by (rule noAwsError_fold_plain) (simp add: noAwsError_def)
  then show ?thesis
    by (auto simp: combineFleetErrors_def isLaunchTemplateNotFound_def noAwsError_def Let_def
             split: option.splits)
qed

lemma getInstance_gone:
  "describeShowsGone d \<Longrightarrow>
     isInstanceTerminated (errOf (getInstance rn d)) \<or> isNotFound (errOf (getInstance rn d))"
  by (auto simp: describeShowsGone_def getInstance_def errOf_def isInstanceTerminated_def
           split: sum.splits list.splits)

lemma Terminate_gone:
  assumes "instanceGone terminate describe iid"
  shows "Terminate rn (Inr iid) terminate describe = None"
proof (cases "terminate iid")
  case None
  then show ?thesis by (simp add: Terminate_def)
next
  case (Some e)
  show ?thesis
  proof (cases "isNotFound (Some e)")
    case True
    with Some show ?thesis by (simp add: Terminate_def)
  next
    case False
    with Some assms have "describeShowsGone (describe iid)"
      by (simp add: instanceGone_def)
    from getInstance_gone [OF this, of rn] Some False show ?thesis
      by (auto simp: Terminate_def Let_def)
  qed
qed

text \<open>
  C4. When the cloud instance no longer exists, that is when the terminate call reports a
  not-found code, or reports another error and the follow-up describe call shows the instance
  missing or in the terminated state, \<open>Terminate\<close> returns \<open>nil\<close>. The answer depends on
  the answers of EC2 only, so each call of a series of calls for such an instance returns
  \<open>nil\<close>: here \<open>terminate k\<close> and \<open>describe k\<close> are the answers EC2 gives to the
  \<open>k\<close>-th call.
\<close>

theorem Terminate_gone_is_nil:
  assumes "\<forall>k < n. instanceGone (terminate k) (describe k) iid"
  shows "\<forall>k < n. Terminate rn (Inr iid) (terminate k) (describe k) = None"
  using assms by (simp add: Terminate_gone)

theorem Terminate_gone_is_nil_witness:
  "instanceGone (exTerminate 0) (exDescribe 0) ''i-1'' \<and>
   instanceGone (exTerminate 1) (exDescribe 1) ''i-1'' \<and>
   Terminate False (Inr ''i-1'') (exTerminate 0) (exDescribe 0) = None \<and>
   Terminate False (Inr ''i-1'') (exTerminate 1) (exDescribe 1) = None"
proof -
  have gone: "\<forall>k < (2::nat). instanceGone (exTerminate k) (exDescribe k) ''i-1''"
    by (simp add: instanceGone_def exTerminate_def exDescribe_def describeShowsGone_def
          isNotFound_def notFoundErrorCodes_def)
  from Terminate_gone_is_nil [OF gone, of False] gone show ?thesis
    by simp
qed

subsection \<open>What a launch leaves unchanged\<close>

lemma launches_Invalidate: "launches (Invalidate st n) = launches st"
  by (simp add: Invalidate_def)

lemma launches_fold_Invalidate:
  "launches (fold (\<lambda>lt s. Invalidate s (LaunchTemplateName lt)) cs st) = launches st"
  by (induction cs arbitrary: st) (simp_all add: launches_Invalidate)

lemma launches_updateUnavailable:
  "launches (updateUnavailableOfferingsCache st es ct) = launches st"
  by (induction st es ct rule: updateUnavailableOfferingsCache.induct)
     (simp_all add: CacheUnavailable_def)

lemma launches_ensureLaunchTemplate:
  "launches (snd (ensureLaunchTemplate env k st name)) = launches st"
  by (simp add: ensureLaunchTemplate_def Let_def split: option.splits sum.splits list.splits)

lemma launches_ensureAll:
  "launches (snd (ensureAll env k st rs acc)) = launches st"
proof (induction rs arbitrary: st acc)
  case Nil
  then show ?case by simp
next
  case (Cons r rs)
  show ?case
  proof (cases "ensureLaunchTemplate env k st (ResolvedName r)")
    case (Pair res st')
    with launches_ensureLaunchTemplate [of env k st "ResolvedName r"]
    have eq: "launches st' = launches st" by simp
    show ?thesis
    proof (cases res)
      case (Inl e)
      with Pair eq show ?thesis by simp
    next
      case (Inr lt)
      with Pair eq Cons.IH show ?thesis by simp
    qed
  qed
qed

lemma launches_launchTemplateProviderGet:
  "launches (snd (launchTemplateProviderGet env k st p r)) = launches st"
  by (simp add: launchTemplateProviderGet_def launches_ensureAll split: option.splits sum.splits)

lemma launches_getLaunchTemplateConfigs:
  "launches (snd (getLaunchTemplateConfigs env k st p r ct)) = launches st"
proof -
  obtain res st' where g: "launchTemplateProviderGet env k st p r = (res, st')"
    by (cases "launchTemplateProviderGet env k st p r")
  with launches_launchTemplateProviderGet [of env k st p r]
  have "launches st' = launches st" by simp
  with g show ?thesis
    by (simp add: getLaunchTemplateConfigs_def Let_def split: sum.splits)
qed

lemma launches_launchInstance:
  "launches (snd (launchInstance env st p r)) = launches st @ [r]"
proof -
  let ?st = "st\<lparr>launches := launches st @ [r]\<rparr>"
  obtain res st1 where g:
    "getLaunchTemplateConfigs env (length (launches st)) ?st p r (getCapacityType r) = (res, st1)"
    by (cases "getLaunchTemplateConfigs env (length (launches st)) ?st p r (getCapacityType r)")
  with launches_getLaunchTemplateConfigs [of env "length (launches st)" ?st p r "getCapacityType r"]
  have "launches st1 = launches st @ [r]" by simp
  with g show ?thesis
    by (simp add: launchInstance_def Let_def launches_fold_Invalidate launches_updateUnavailable
             split: sum.splits list.splits)
qed


lemma unavail_fold_Invalidate:
  "unavailableOfferings (fold (\<lambda>lt s. Invalidate s (LaunchTemplateName lt)) cs st) =
     unavailableOfferings st"
  by (induction cs arbitrary: st) (simp_all add: Invalidate_def)

lemma unavail_ensureLaunchTemplate:
  "unavailableOfferings (snd (ensureLaunchTemplate env k st name)) = unavailableOfferings st"
  by (simp add: ensureLaunchTemplate_def Let_def split: option.splits sum.splits list.splits)

lemma unavail_ensureAll:
  "unavailableOfferings (snd (ensureAll env k st rs acc)) = unavailableOfferings st"
proof (induction rs arbitrary: st acc)
  case Nil
  then show ?case by simp
next
  case (Cons r rs)
  show ?case
  proof (cases "ensureLaunchTemplate env k st (ResolvedName r)")
    case (Pair res st')
    with unavail_ensureLaunchTemplate [of env k st "ResolvedName r"]
    have eq: "unavailableOfferings st' = unavailableOfferings st" by simp
    show ?thesis
    proof (cases res)
      case (Inl e)
      with Pair eq show ?thesis by simp
    next
      case (Inr lt)
      with Pair eq Cons.IH show ?thesis by simp
    qed
  qed
qed

lemma unavail_getLaunchTemplateConfigs:
  "unavailableOfferings (snd (getLaunchTemplateConfigs env k st p r ct)) = unavailableOfferings st"
proof -
  have "unavailableOfferings (snd (launchTemplateProviderGet env k st p r)) = unavailableOfferings st"
    by (simp add: launchTemplateProviderGet_def unavail_ensureAll split: option.splits sum.splits)
  moreover obtain res st' where g: "launchTemplateProviderGet env k st p r = (res, st')"
    by (cases "launchTemplateProviderGet env k st p r")
  ultimately have "unavailableOfferings st' = unavailableOfferings st" by simp
  with g show ?thesis
    by (simp add: getLaunchTemplateConfigs_def Let_def split: sum.splits)
qed

lemma unavail_update:
  "unavailableOfferings (updateUnavailableOfferingsCache st errors ct) =
     unavailableOfferings st \<union>
       (\<lambda>e. (ct, ErrInstanceType e, ErrAvailabilityZone e)) `
         {e \<in> set errors. ErrorCode e \<in> set unfulfillableCapacityErrorCodes}"
proof (induction st errors ct rule: updateUnavailableOfferingsCache.induct)
  case (1 st capacityType)
  then show ?case by simp
next
  case (2 st e errors capacityType)
  then show ?case
    by (auto simp: CacheUnavailable_def isUnfulfillableCapacity_def)
qed


lemma ltCache_fold_Invalidate:
  "ltCache (fold (\<lambda>lt s. Invalidate s (LaunchTemplateName lt)) cs st) n =
     (if n \<in> LaunchTemplateName ` set cs then None else ltCache st n)"
  by (induction cs arbitrary: st) (auto simp: Invalidate_def)

lemma launchInstance_fleet_not_found:
  assumes "getLaunchTemplateConfigs env (length (launches st)) (st\<lparr>launches := launches st @ [r]\<rparr>)
             provider r (getCapacityType r) = (Inr configs, st1)"
      and "CreateFleet env (length (launches st)) (createFleetInput (getCapacityType r) configs) = Inl e"
      and "isLaunchTemplateNotFound (Some e)"
  shows "launchInstance env st provider r =
           (Inl (Wrapped ''creating fleet'' e),
            fold (\<lambda>lt s. Invalidate s (LaunchTemplateName lt)) configs st1)"
  using assms by (simp add: launchInstance_def Let_def)

lemma isLaunchTemplateNotFound_Wrapped:
  "isLaunchTemplateNotFound (Some (Wrapped m e)) = isLaunchTemplateNotFound (Some e)"
  by (simp add: isLaunchTemplateNotFound_def)

lemma Create_retry:
  assumes "isLaunchTemplateNotFound (errOf (fst (launchInstance env st provider r)))"
      and "r = truncated req"
      and "launchInstance env (snd (launchInstance env st provider r)) provider r = (Inl e2, st2)"
  shows "Create env st provider req = (Failed e2, st2)"
proof -
  obtain r1 st1 where l1: "launchInstance env st provider r = (r1, st1)"
    by (cases "launchInstance env st provider r")
  with assms have "isLaunchTemplateNotFound (errOf r1)"
    and "launchInstance env st1 provider r = (Inl e2, st2)" by simp_all
  with l1 show ?thesis
    unfolding assms(2) by (simp add: Create_def Let_def)
qed

lemma Create_launches_retry:
  assumes "isLaunchTemplateNotFound (errOf (fst (launchInstance env st provider r)))"
      and "r = truncated req"
  shows "launches (snd (Create env st provider req)) = launches st @ [r, r]"
proof -
  obtain r1 st1 where l1: "launchInstance env st provider r = (r1, st1)"
    by (cases "launchInstance env st provider r")
  obtain r2 st2 where l2: "launchInstance env st1 provider r = (r2, st2)"
    by (cases "launchInstance env st1 provider r")
  from l1 launches_launchInstance [of env st provider r]
  have s1: "launches st1 = launches st @ [r]" by simp
  from l2 launches_launchInstance [of env st1 provider r] s1
  have s2: "launches st2 = launches st @ [r, r]" by simp
  from assms l1 l2 have "snd (Create env st provider req) = st2"
    by (simp add: Create_def Let_def split: sum.splits)
  with s2 show ?thesis by simp
qed

lemma Create_launches_no_retry:
  assumes "\<not> isLaunchTemplateNotFound (errOf (fst (launchInstance env st provider r)))"
      and "r = truncated req"
  shows "launches (snd (Create env st provider req)) = launches st @ [r]"
proof -
  obtain r1 st1 where l1: "launchInstance env st provider r = (r1, st1)"
    by (cases "launchInstance env st provider r")
  from l1 launches_launchInstance [of env st provider r]
  have s1: "launches st1 = launches st @ [r]" by simp
  from assms l1 have "snd (Create env st provider req) = st1"
    by (simp add: Create_def Let_def split: sum.splits)
  with s1 show ?thesis by simp
qed

lemma length_truncateInstanceTypes:
  "length (truncateInstanceTypes its) \<le> MaxInstanceTypes"
  by (simp add: truncateInstanceTypes_def Let_def)

lemma truncateInstanceTypes_take:
  "truncateInstanceTypes its = take MaxInstanceTypes (prioritizeInstanceTypes its)"
  by (simp add: truncateInstanceTypes_def Let_def)




lemma launchInstance_cached_no_retry:
  assumes "unavailableOfferings (snd (launchInstance env st provider r)) \<noteq> unavailableOfferings st"
  shows "\<not> isLaunchTemplateNotFound (errOf (fst (launchInstance env st provider r)))"
proof -
  let ?k = "length (launches st)"
  let ?st = "st\<lparr>launches := launches st @ [r]\<rparr>"
  obtain res st1 where g:
    "getLaunchTemplateConfigs env ?k ?st provider r (getCapacityType r) = (res, st1)"
    by (cases "getLaunchTemplateConfigs env ?k ?st provider r (getCapacityType r)")
  with unavail_getLaunchTemplateConfigs [of env ?k ?st provider r "getCapacityType r"]
  have u1: "unavailableOfferings st1 = unavailableOfferings st" by simp
  show ?thesis
  proof (cases res)
    case (Inl e)
    with g u1 assms show ?thesis by (simp add: launchInstance_def Let_def)
  next
    case (Inr configs)
    show ?thesis
    proof (cases "CreateFleet env ?k (createFleetInput (getCapacityType r) configs)")
      case (Inl e)
      with g Inr u1 assms show ?thesis
        by (simp add: launchInstance_def Let_def unavail_fold_Invalidate split: if_splits)
    next
      case (Inr out)
      with g \<open>res = Inr configs\<close> show ?thesis
        using combineFleetErrors_not_lt_not_found [of "Errors out"]
        by (auto simp: launchInstance_def Let_def errOf_def isLaunchTemplateNotFound_def
                 split: list.splits)
    qed
  qed
qed

lemma getCapacityType_spot_iff:
  "getCapacityType r = CapacityTypeSpot \<longleftrightarrow>
     Has (Get (TemplateRequirements r) LabelCapacityType) CapacityTypeSpot \<and>
     (\<exists>it \<in> set (InstanceTypeOptions r). \<exists>offering \<in> set (Offerings it).
        Available offering \<and> CapacityType offering = CapacityTypeSpot \<and>
        Has (Get (TemplateRequirements r) LabelTopologyZone) (Zone offering))"
  by (auto simp: getCapacityType_def AvailableOfferings_def list_ex_iff
                 CapacityTypeSpot_def CapacityTypeOnDemand_def)



subsection \<open>The example environment, evaluated\<close>

lemma ex_truncated: "truncated exRequest = exRequest"
  by (simp add: truncated_def truncateInstanceTypes_def prioritizeInstanceTypes_def isGeneric_def
       exRequest_def exInstanceType_def HasAnyPrefix_def MaxInstanceTypes_def Let_def)

lemma ex_capacityType: "getCapacityType exRequest = ''spot''"
  by (simp add: getCapacityType_def exRequest_def exInstanceType_def exOffering_def
       AvailableOfferings_def Get_def Exists_def Has_def CapacityTypeSpot_def)

lemma ex_overrides:
  "getOverrides [exInstanceType] [exSubnet] (Get [] LabelTopologyZone) ''spot'' = Overrides (hd exConfigs)"
  by (simp add: getOverrides_def unwrappedOfferings_def zonalSubnets_def exInstanceType_def
       exOffering_def exSubnet_def exConfigs_def AvailableOfferings_def Get_def Exists_def Has_def
       CapacityTypeSpot_def List.map_filter_def enumerate_eq_zip)

lemma ex_configs_cached:
  "getLaunchTemplateConfigs exEnvStale k (exState\<lparr>launches := ls\<rparr>) exProvider exRequest ''spot''
     = (Inr exConfigs, exState\<lparr>launches := ls\<rparr>)"
  apply (simp add: getLaunchTemplateConfigs_def launchTemplateProviderGet_def exEnvStale_def
       exProvider_def ensureLaunchTemplate_def exState_def exStale_def Let_def)
  apply (simp add: exRequest_def ex_overrides [simplified exRequest_def])
  apply (simp add: exConfigs_def)
  done

lemma ex_first_launch:
  "launchInstance exEnvStale exState exProvider exRequest =
     (Inl (Wrapped ''creating fleet'' exNotFound),
      exState\<lparr>ltCache := Map.empty, launches := [exRequest]\<rparr>)"
proof -
  have l: "launches exState = []" by (simp add: exState_def)
  have f: "CreateFleet exEnvStale 0 (createFleetInput ''spot'' exConfigs) = Inl exNotFound"
    by (simp add: exEnvStale_def)
  have n: "isLaunchTemplateNotFound (Some exNotFound)"
    by (simp add: isLaunchTemplateNotFound_def exNotFound_def)
  have "launchInstance exEnvStale exState exProvider exRequest =
      (Inl (Wrapped ''creating fleet'' exNotFound),
       fold (\<lambda>lt s. Invalidate s (LaunchTemplateName lt)) exConfigs (exState\<lparr>launches := [exRequest]\<rparr>))"
    by (rule launchInstance_fleet_not_found [where configs = exConfigs])
       (simp_all add: l ex_capacityType ex_configs_cached f n)
  then show ?thesis
    by (simp add: exConfigs_def Invalidate_def exState_def)
qed


lemma ex_configs_miss:
  "fst (getLaunchTemplateConfigs exEnvStale k (exState\<lparr>ltCache := Map.empty, launches := ls\<rparr>)
          exProvider exRequest ''spot'') = Inr exConfigs"
  apply (simp add: getLaunchTemplateConfigs_def launchTemplateProviderGet_def exEnvStale_def
       exProvider_def ensureLaunchTemplate_def exState_def exStale_def Let_def)
  apply (simp add: exRequest_def ex_overrides [simplified exRequest_def])
  apply (simp add: exConfigs_def)
  done

lemma ex_second_launch:
  "fst (launchInstance exEnvStale (exState\<lparr>ltCache := Map.empty, launches := [exRequest]\<rparr>)
          exProvider exRequest) = Inl (Wrapped ''creating fleet'' exNotFound)"
proof -
  let ?st = "exState\<lparr>ltCache := Map.empty, launches := [exRequest]\<rparr>"
  obtain st1 where g: "getLaunchTemplateConfigs exEnvStale (Suc 0)
      (exState\<lparr>ltCache := Map.empty, launches := [exRequest, exRequest]\<rparr>) exProvider exRequest ''spot''
      = (Inr exConfigs, st1)"
    using ex_configs_miss [of "Suc 0" "[exRequest, exRequest]"]
    by (cases "getLaunchTemplateConfigs exEnvStale (Suc 0)
      (exState\<lparr>ltCache := Map.empty, launches := [exRequest, exRequest]\<rparr>) exProvider exRequest ''spot''")
       simp
  have f: "CreateFleet exEnvStale (Suc 0) (createFleetInput ''spot'' exConfigs) = Inl exNotFound"
    by (simp add: exEnvStale_def)
  have n: "isLaunchTemplateNotFound (Some exNotFound)"
    by (simp add: isLaunchTemplateNotFound_def exNotFound_def)
  have "launchInstance exEnvStale ?st exProvider exRequest =
      (Inl (Wrapped ''creating fleet'' exNotFound),
       fold (\<lambda>lt s. Invalidate s (LaunchTemplateName lt)) exConfigs st1)"
    by (rule launchInstance_fleet_not_found [where configs = exConfigs])
       (simp_all add: ex_capacityType g f n)
  then show ?thesis by simp
qed

text \<open>
  C5. When a launch attempt fails because the fleet call reports that a launch template is not
  found, the names of the launch templates of the request are gone from the cache before the
  retry, \<open>launchInstance\<close> is entered exactly twice by \<open>Create\<close>, and an error of the
  second attempt is the error \<open>Create\<close> returns.
\<close>

theorem stale_launch_template_retried_once:
  assumes "getLaunchTemplateConfigs env (length (launches st))
             (st\<lparr>launches := launches st @ [truncated req]\<rparr>) provider (truncated req)
             (getCapacityType (truncated req)) = (Inr configs, st1)"
      and "CreateFleet env (length (launches st))
             (createFleetInput (getCapacityType (truncated req)) configs) = Inl e"
      and "isLaunchTemplateNotFound (Some e)"
  shows "(\<forall>c \<in> set configs.
            ltCache (snd (launchInstance env st provider (truncated req))) (LaunchTemplateName c) = None) \<and>
         launches (snd (Create env st provider req)) = launches st @ [truncated req, truncated req] \<and>
         (\<forall>e2 st2.
            launchInstance env (snd (launchInstance env st provider (truncated req))) provider
              (truncated req) = (Inl e2, st2) \<longrightarrow>
            Create env st provider req = (Failed e2, st2))"
proof -
  from launchInstance_fleet_not_found [OF assms]
  have first: "launchInstance env st provider (truncated req) =
      (Inl (Wrapped ''creating fleet'' e),
       fold (\<lambda>lt s. Invalidate s (LaunchTemplateName lt)) configs st1)" .
  with assms(3) have nf:
    "isLaunchTemplateNotFound (errOf (fst (launchInstance env st provider (truncated req))))"
    by (simp add: errOf_def isLaunchTemplateNotFound_Wrapped)
  from first have "\<forall>c \<in> set configs.
      ltCache (snd (launchInstance env st provider (truncated req))) (LaunchTemplateName c) = None"
    by (simp add: ltCache_fold_Invalidate)
  moreover from Create_launches_retry [OF nf refl]
  have "launches (snd (Create env st provider req)) = launches st @ [truncated req, truncated req]" .
  moreover from Create_retry [OF nf refl]
  have "\<forall>e2 st2.
      launchInstance env (snd (launchInstance env st provider (truncated req))) provider
        (truncated req) = (Inl e2, st2) \<longrightarrow>
      Create env st provider req = (Failed e2, st2)"
    by blast
  ultimately show ?thesis by blast
qed

theorem stale_launch_template_retried_once_witness:
  "getLaunchTemplateConfigs exEnvStale (length (launches exState))
     (exState\<lparr>launches := launches exState @ [truncated exRequest]\<rparr>) exProvider (truncated exRequest)
     (getCapacityType (truncated exRequest)) = (Inr exConfigs, exState\<lparr>launches := [exRequest]\<rparr>) \<and>
   CreateFleet exEnvStale (length (launches exState))
     (createFleetInput (getCapacityType (truncated exRequest)) exConfigs) = Inl exNotFound \<and>
   isLaunchTemplateNotFound (Some exNotFound) \<and>
   ltCache exState ''lt-1'' = Some exStale \<and>
   ltCache (snd (launchInstance exEnvStale exState exProvider (truncated exRequest))) ''lt-1'' = None \<and>
   launches (snd (Create exEnvStale exState exProvider exRequest)) = [exRequest, exRequest] \<and>
   fst (Create exEnvStale exState exProvider exRequest) = Failed (Wrapped ''creating fleet'' exNotFound)"
proof -
  have l: "launches exState = []" by (simp add: exState_def)
  have h1: "getLaunchTemplateConfigs exEnvStale (length (launches exState))
     (exState\<lparr>launches := launches exState @ [truncated exRequest]\<rparr>) exProvider (truncated exRequest)
     (getCapacityType (truncated exRequest)) = (Inr exConfigs, exState\<lparr>launches := [exRequest]\<rparr>)"
    by (simp add: l ex_truncated ex_capacityType ex_configs_cached)
  have h2: "CreateFleet exEnvStale (length (launches exState))
     (createFleetInput (getCapacityType (truncated exRequest)) exConfigs) = Inl exNotFound"
    by (simp add: exEnvStale_def)
  have h3: "isLaunchTemplateNotFound (Some exNotFound)"
    by (simp add: isLaunchTemplateNotFound_def exNotFound_def)
  note inst = stale_launch_template_retried_once [OF h1 h2 h3]
  have c0: "ltCache exState ''lt-1'' = Some exStale" by (simp add: exState_def)
  from inst have c1:
    "ltCache (snd (launchInstance exEnvStale exState exProvider (truncated exRequest))) ''lt-1'' = None"
    by (simp add: exConfigs_def)
  from inst have c2: "launches (snd (Create exEnvStale exState exProvider exRequest)) = [exRequest, exRequest]"
    by (simp add: l ex_truncated)
  have second: "fst (launchInstance exEnvStale
      (snd (launchInstance exEnvStale exState exProvider (truncated exRequest))) exProvider
      (truncated exRequest)) = Inl (Wrapped ''creating fleet'' exNotFound)"
    by (simp add: ex_truncated ex_first_launch ex_second_launch)
  from inst have "\<And>e2 st2. launchInstance exEnvStale
      (snd (launchInstance exEnvStale exState exProvider (truncated exRequest))) exProvider
      (truncated exRequest) = (Inl e2, st2) \<Longrightarrow>
      Create exEnvStale exState exProvider exRequest = (Failed e2, st2)"
    by blast
  from this [of "Wrapped ''creating fleet'' exNotFound" "snd (launchInstance exEnvStale
      (snd (launchInstance exEnvStale exState exProvider (truncated exRequest))) exProvider
      (truncated exRequest))"] second
  have c3: "fst (Create exEnvStale exState exProvider exRequest) = Failed (Wrapped ''creating fleet'' exNotFound)"
    by (metis fst_conv prod.collapse)
  from h1 h2 h3 c0 c1 c2 c3 show ?thesis by blast
qed

lemma getOverrides_types:
  "OvInstanceType ` set (getOverrides its subnets zones ct) \<subseteq> Name ` set its"
proof
  fix x assume "x \<in> OvInstanceType ` set (getOverrides its subnets zones ct)"
  then obtain i offering parent where
    mem: "(i, (offering, parent)) \<in> set (enumerate 0 (unwrappedOfferings its))" and x: "x = parent"
    by (auto simp: getOverrides_def List.map_filter_def split: if_splits option.splits)
  from mem have "(offering, parent) \<in> set (unwrappedOfferings its)"
    by (auto simp: in_set_enumerate_eq dest: nth_mem)
  then have "parent \<in> Name ` set its"
    by (auto simp: unwrappedOfferings_def)
  with x show "x \<in> Name ` set its" by simp
qed

lemma card_override_types:
  "card (OvInstanceType ` set (getOverrides its subnets zones ct)) \<le> length its"
proof -
  have "card (OvInstanceType ` set (getOverrides its subnets zones ct)) \<le> card (Name ` set its)"
    by (rule card_mono) (simp_all add: getOverrides_types)
  also have "\<dots> \<le> card (set its)" by (rule card_image_le) simp
  also have "\<dots> \<le> length its" by (rule card_length)
  finally show ?thesis .
qed

text \<open>
  C7. The request \<open>Create\<close> hands to \<open>launchInstance\<close>, at the first attempt and at the
  retry, holds the first \<open>MaxInstanceTypes = 20\<close> of the prioritized options and no more;
  the overrides computed from these options name no more than that many instance types.
\<close>

theorem Create_passes_at_most_MaxInstanceTypes:
  "MaxInstanceTypes = 20 \<and>
   length (InstanceTypeOptions (truncated req)) \<le> MaxInstanceTypes \<and>
   InstanceTypeOptions (truncated req) =
     take MaxInstanceTypes (prioritizeInstanceTypes (InstanceTypeOptions req)) \<and>
   (launches (snd (Create env st provider req)) = launches st @ [truncated req] \<or>
    launches (snd (Create env st provider req)) = launches st @ [truncated req, truncated req]) \<and>
   card (OvInstanceType `
     set (getOverrides (InstanceTypeOptions (truncated req)) subnets zones ct))
     \<le> MaxInstanceTypes"
proof -
  have l: "launches (snd (Create env st provider req)) = launches st @ [truncated req] \<or>
    launches (snd (Create env st provider req)) = launches st @ [truncated req, truncated req]"
    using Create_launches_retry [OF _ refl, of env st provider req]
          Create_launches_no_retry [OF _ refl, of env st provider req]
    by blast
  have n: "length (InstanceTypeOptions (truncated req)) \<le> MaxInstanceTypes"
    by (simp add: truncated_def length_truncateInstanceTypes)
  have "card (OvInstanceType `
     set (getOverrides (InstanceTypeOptions (truncated req)) subnets zones ct))
     \<le> length (InstanceTypeOptions (truncated req))"
    by (rule card_override_types)
  with n have c: "card (OvInstanceType `
     set (getOverrides (InstanceTypeOptions (truncated req)) subnets zones ct))
     \<le> MaxInstanceTypes" by simp
  have t: "InstanceTypeOptions (truncated req) =
     take MaxInstanceTypes (prioritizeInstanceTypes (InstanceTypeOptions req))"
    by (simp add: truncated_def truncateInstanceTypes_take)
  have m: "MaxInstanceTypes = 20" by (simp add: MaxInstanceTypes_def)
  from m n t l c show ?thesis by blast
qed

lemma ex_many_prioritized:
  "prioritizeInstanceTypes (replicate 25 exInstanceType) = replicate 25 exInstanceType"
proof -
  have "isGeneric exInstanceType"
    by (simp add: isGeneric_def exInstanceType_def HasAnyPrefix_def)
  then show ?thesis by (simp add: prioritizeInstanceTypes_def Let_def)
qed

theorem Create_passes_at_most_MaxInstanceTypes_witness:
  "length (InstanceTypeOptions exManyRequest) = 25 \<and>
   InstanceTypeOptions (truncated exManyRequest) = replicate 20 exInstanceType \<and>
   set (launches (snd (Create exEnvLaunch exState exProvider exManyRequest))) = {truncated exManyRequest}"
proof -
  note inst = Create_passes_at_most_MaxInstanceTypes
      [of exManyRequest exEnvLaunch exState exProvider "[exSubnet]" Exists CapacityTypeSpot]
  have l: "launches exState = []" by (simp add: exState_def)
  from inst have "InstanceTypeOptions (truncated exManyRequest) = replicate 20 exInstanceType"
    by (simp add: exManyRequest_def ex_many_prioritized MaxInstanceTypes_def)
  moreover from inst l
  have "set (launches (snd (Create exEnvLaunch exState exProvider exManyRequest))) = {truncated exManyRequest}"
    by auto
  ultimately show ?thesis by (simp add: exManyRequest_def)
qed

text \<open>
  C10. \<open>getCapacityType\<close> answers spot exactly when the capacity type requirement of the
  request admits spot and some option has an available spot offering in a zone the zone
  requirement admits; in every other case it answers on-demand.
\<close>

theorem getCapacityType_spot_iff_available:
  "(getCapacityType r = CapacityTypeSpot \<longleftrightarrow>
      Has (Get (TemplateRequirements r) LabelCapacityType) CapacityTypeSpot \<and>
      (\<exists>it \<in> set (InstanceTypeOptions r). \<exists>offering \<in> set (Offerings it).
         Available offering \<and> CapacityType offering = CapacityTypeSpot \<and>
         Has (Get (TemplateRequirements r) LabelTopologyZone) (Zone offering))) \<and>
   (getCapacityType r = CapacityTypeOnDemand \<longleftrightarrow>
      \<not> (Has (Get (TemplateRequirements r) LabelCapacityType) CapacityTypeSpot \<and>
         (\<exists>it \<in> set (InstanceTypeOptions r). \<exists>offering \<in> set (Offerings it).
            Available offering \<and> CapacityType offering = CapacityTypeSpot \<and>
            Has (Get (TemplateRequirements r) LabelTopologyZone) (Zone offering))))"
proof -
  have "getCapacityType r = CapacityTypeOnDemand \<longleftrightarrow> getCapacityType r \<noteq> CapacityTypeSpot"
    by (simp add: getCapacityType_def CapacityTypeSpot_def CapacityTypeOnDemand_def)
  with getCapacityType_spot_iff [of r] show ?thesis by simp
qed

theorem getCapacityType_spot_iff_available_witness:
  "getCapacityType exRequest = CapacityTypeSpot \<and>
   Has (Get (TemplateRequirements exUnavailableRequest) LabelCapacityType) CapacityTypeSpot \<and>
   getCapacityType exUnavailableRequest = CapacityTypeOnDemand"
proof -
  have "Has (Get (TemplateRequirements exRequest) LabelCapacityType) CapacityTypeSpot \<and>
      (\<exists>it \<in> set (InstanceTypeOptions exRequest). \<exists>offering \<in> set (Offerings it).
         Available offering \<and> CapacityType offering = CapacityTypeSpot \<and>
         Has (Get (TemplateRequirements exRequest) LabelTopologyZone) (Zone offering))"
    by (simp add: exRequest_def exInstanceType_def exOffering_def Get_def Exists_def Has_def
          CapacityTypeSpot_def)
  with getCapacityType_spot_iff_available [of exRequest]
  have a: "getCapacityType exRequest = CapacityTypeSpot" by blast
  have b: "Has (Get (TemplateRequirements exUnavailableRequest) LabelCapacityType) CapacityTypeSpot"
    by (simp add: exUnavailableRequest_def Get_def Exists_def Has_def)
  have "\<not> (\<exists>it \<in> set (InstanceTypeOptions exUnavailableRequest). \<exists>offering \<in> set (Offerings it).
         Available offering \<and> CapacityType offering = CapacityTypeSpot \<and>
         Has (Get (TemplateRequirements exUnavailableRequest) LabelTopologyZone) (Zone offering))"
    by (simp add: exUnavailableRequest_def)
  with getCapacityType_spot_iff_available [of exUnavailableRequest]
  have c: "getCapacityType exUnavailableRequest = CapacityTypeOnDemand" by blast
  from a b c show ?thesis by blast
qed

text \<open>
  C6. Of the errors of a fleet answer, exactly those whose code is one of the unfulfillable
  capacity codes put their offering into the cache of unavailable offerings, under the
  capacity type of the request; the other errors leave the cache as it is. A launch attempt
  that got a fleet answer is never followed by a retry in the same \<open>Create\<close>: its error, if
  any, is not the launch-template-not-found error.
\<close>

theorem unfulfillable_capacity_cached:
  assumes "getLaunchTemplateConfigs env (length (launches st))
             (st\<lparr>launches := launches st @ [r]\<rparr>) provider r (getCapacityType r)
             = (Inr configs, st1)"
      and "CreateFleet env (length (launches st))
             (createFleetInput (getCapacityType r) configs) = Inr out"
  shows "unfulfillableCapacityErrorCodes =
           [''InsufficientInstanceCapacity'', ''MaxSpotInstanceCountExceeded'',
            ''VcpuLimitExceeded'', ''UnfulfillableCapacity'', ''Unsupported''] \<and>
         unavailableOfferings (updateUnavailableOfferingsCache st0 errors ct) =
           unavailableOfferings st0 \<union>
             (\<lambda>e. (ct, ErrInstanceType e, ErrAvailabilityZone e)) `
               {e \<in> set errors. ErrorCode e \<in> set unfulfillableCapacityErrorCodes} \<and>
         unavailableOfferings (snd (launchInstance env st provider r)) =
           unavailableOfferings st \<union>
             (\<lambda>e. (getCapacityType r, ErrInstanceType e, ErrAvailabilityZone e)) `
               {e \<in> set (Errors out). ErrorCode e \<in> set unfulfillableCapacityErrorCodes} \<and>
         \<not> isLaunchTemplateNotFound (errOf (fst (launchInstance env st provider r))) \<and>
         (r = truncated req \<longrightarrow>
            launches (snd (Create env st provider req)) = launches st @ [r])"
proof -
  from unavail_getLaunchTemplateConfigs
         [of env "length (launches st)" "st\<lparr>launches := launches st @ [r]\<rparr>" provider r
             "getCapacityType r"] assms(1)
  have u1: "unavailableOfferings st1 = unavailableOfferings st" by simp
  have cache: "unavailableOfferings (snd (launchInstance env st provider r)) =
      unavailableOfferings st \<union>
        (\<lambda>e. (getCapacityType r, ErrInstanceType e, ErrAvailabilityZone e)) `
          {e \<in> set (Errors out). ErrorCode e \<in> set unfulfillableCapacityErrorCodes}"
    using assms u1
    by (simp add: launchInstance_def Let_def unavail_update split: list.splits)
  have final: "\<not> isLaunchTemplateNotFound (errOf (fst (launchInstance env st provider r)))"
    using assms combineFleetErrors_not_lt_not_found [of "Errors out"]
    by (auto simp: launchInstance_def Let_def errOf_def isLaunchTemplateNotFound_def
             split: list.splits)
  have once: "r = truncated req \<longrightarrow>
      launches (snd (Create env st provider req)) = launches st @ [r]"
    using final Create_launches_no_retry [of env st provider r req] by blast
  from cache final once show ?thesis
    by (simp add: unavail_update unfulfillableCapacityErrorCodes_def)
qed

lemma ex_configs_no_capacity:
  "getLaunchTemplateConfigs exEnvNoCapacity k (exState\<lparr>launches := ls\<rparr>) exProvider exRequest ''spot''
     = (Inr exConfigs, exState\<lparr>launches := ls\<rparr>)"
  apply (simp add: getLaunchTemplateConfigs_def launchTemplateProviderGet_def exEnvStale_def
       exEnvNoCapacity_def exProvider_def ensureLaunchTemplate_def exState_def exStale_def Let_def)
  apply (simp add: exRequest_def ex_overrides [simplified exRequest_def])
  apply (simp add: exConfigs_def)
  done

theorem unfulfillable_capacity_cached_witness:
  "getLaunchTemplateConfigs exEnvNoCapacity (length (launches exState))
     (exState\<lparr>launches := launches exState @ [exRequest]\<rparr>) exProvider exRequest
     (getCapacityType exRequest) = (Inr exConfigs, exState\<lparr>launches := [exRequest]\<rparr>) \<and>
   CreateFleet exEnvNoCapacity (length (launches exState))
     (createFleetInput (getCapacityType exRequest) exConfigs)
     = Inr \<lparr>Errors = exFleetErrors, Instances = []\<rparr> \<and>
   unavailableOfferings exState = {} \<and>
   unavailableOfferings (snd (launchInstance exEnvNoCapacity exState exProvider exRequest)) =
     {(''spot'', ''m5.large'', ''us-west-2a'')} \<and>
   launches (snd (Create exEnvNoCapacity exState exProvider exRequest)) = [exRequest]"
proof -
  have l: "launches exState = []" by (simp add: exState_def)
  have h1: "getLaunchTemplateConfigs exEnvNoCapacity (length (launches exState))
     (exState\<lparr>launches := launches exState @ [exRequest]\<rparr>) exProvider exRequest
     (getCapacityType exRequest) = (Inr exConfigs, exState\<lparr>launches := [exRequest]\<rparr>)"
    by (simp add: l ex_capacityType ex_configs_no_capacity)
  have h2: "CreateFleet exEnvNoCapacity (length (launches exState))
     (createFleetInput (getCapacityType exRequest) exConfigs)
     = Inr \<lparr>Errors = exFleetErrors, Instances = []\<rparr>"
    by (simp add: exEnvNoCapacity_def)
  note inst = unfulfillable_capacity_cached [OF h1 h2, of exState "[]" "''spot''" exRequest]
  have u0: "unavailableOfferings exState = {}" by (simp add: exState_def)
  have keys: "(\<lambda>e. (getCapacityType exRequest, ErrInstanceType e, ErrAvailabilityZone e)) `
      {e \<in> set (Errors \<lparr>Errors = exFleetErrors, Instances = []\<rparr>).
         ErrorCode e \<in> set unfulfillableCapacityErrorCodes}
      = {(''spot'', ''m5.large'', ''us-west-2a'')}"
    unfolding set_filter [symmetric]
    by (simp add: exFleetErrors_def unfulfillableCapacityErrorCodes_def ex_capacityType)
  from inst keys u0
  have c1: "unavailableOfferings (snd (launchInstance exEnvNoCapacity exState exProvider exRequest)) =
     {(''spot'', ''m5.large'', ''us-west-2a'')}"
    by simp
  from inst l ex_truncated
  have c2: "launches (snd (Create exEnvNoCapacity exState exProvider exRequest)) = [exRequest]"
    by simp
  from h1 h2 u0 c1 c2 show ?thesis by blast
qed








section \<open>Properties of drift detection\<close>








section \<open>Properties of consolidation\<close>







section \<open>Properties of the disruption budgets\<close>

lemma div_round_up: "- (- a div 100) = (a + 99) div (100::int)"
proof -
  define z where "z = (a + 99) div 100"
  have "a + 99 = 100 * z + (a + 99) mod 100" by (simp add: z_def)
  moreover have "0 \<le> (a + 99) mod 100" "(a + 99) mod 100 < 100" by simp_all
  ultimately have b: "100 * z - 99 \<le> a" "a \<le> 100 * z" by linarith+
  have "- a div 100 = - z"
  proof (rule int_div_pos_eq)
    show "- a = 100 * (- z) + (100 * z - a)" by simp
    show "0 \<le> 100 * z - a" using b by simp
    show "100 * z - a < 100" using b by simp
  qed
  then show ?thesis by (simp add: z_def)
qed

lemma ceiling_percentage:
  "(int n * int p + 99) div 100 = \<lceil>real n * (real p / 100)\<rceil>"
proof -
  have "\<lceil>real n * (real p / 100)\<rceil> = \<lceil>real_of_int (int n * int p) / real_of_int 100\<rceil>"
    by simp
  also have "\<dots> = - (- (int n * int p) div 100)"
    by (rule ceiling_divide_eq_div)
  also have "\<dots> = (int n * int p + 99) div 100"
    by (rule div_round_up)
  finally show ?thesis by simp
qed

lemma allowed_eq_spec: "allowed c b = allowed_spec c b"
  by (simp add: allowed_def allowed_spec_def scaledNodes_def ceiling_percentage
           split: NodesValue.splits)

lemma minAllowed_Some:
  "minAllowed c bs (Some m) = Some (Min (insert m (allowed c ` set bs)))"
proof (induction bs arbitrary: m)
  case Nil
  then show ?case by simp
next
  case (Cons b bs)
  have "(if allowed c b < m then allowed c b else m) = min (allowed c b) m"
    by (simp add: min_def)
  moreover have "Min (insert (min (allowed c b) m) (allowed c ` set bs)) =
      Min (insert m (insert (allowed c b) (allowed c ` set bs)))"
    by (cases "set bs = {}") (simp_all add: min.commute min.left_commute)
  ultimately show ?case using Cons.IH by simp
qed

lemma minAllowed_None:
  "bs \<noteq> [] \<Longrightarrow> minAllowed c bs None = Some (Min (allowed c ` set bs))"
  by (cases bs) (simp_all add: minAllowed_Some)

lemma minAllowed_Nil: "minAllowed c [] None = None"
  by simp


lemma allowedDisruptions_active:
  assumes "activeBudgets budgets r t \<noteq> {}"
  shows "allowedDisruptions budgets c r t =
           Some (max 0 (Min (allowed_spec c ` activeBudgets budgets r t)))"
proof -
  let ?bs = "if budgets = [] then [defaultBudget] else budgets"
  have set: "set (filter (isActive r t) ?bs) = activeBudgets budgets r t"
    by (simp add: activeBudgets_def)
  with assms have ne: "filter (isActive r t) ?bs \<noteq> []"
    by (metis set_empty)
  have "allowed c ` set (filter (isActive r t) ?bs) = allowed_spec c ` activeBudgets budgets r t"
    unfolding set by (simp add: allowed_eq_spec)
  with minAllowed_None [OF ne, of c]
  have "minAllowed c (filter (isActive r t) ?bs) None =
      Some (Min (allowed_spec c ` activeBudgets budgets r t))" by simp
  then show ?thesis
    by (simp add: allowedDisruptions_def Let_def max_def)
qed

lemma defaultBudget_active: "activeBudgets [] r t = {defaultBudget}"
  by (auto simp: activeBudgets_def isActive_def defaultBudget_def)

text \<open>
  C1. For every pool, reason and time at which some budget is active, the calculator answers
  the least of the allowed numbers of the active budgets, where the allowed number of a
  percentage budget is the ceiling of that percentage of the nodes of the pool less the
  deleting and the not-ready nodes, and that of an absolute budget is its number less the
  same; the answer is not below zero. A pool that defines no budgets is treated as a pool
  with the single budget of 10% for all reasons.
\<close>

theorem allowedDisruptions_is_clamped_minimum:
  "(activeBudgets budgets r t \<noteq> {} \<longrightarrow>
      allowedDisruptions budgets c r t =
        Some (max 0 (Min (allowed_spec c ` activeBudgets budgets r t)))) \<and>
   (\<forall>n. allowedDisruptions budgets c r t = Some n \<longrightarrow> 0 \<le> n) \<and>
   allowedDisruptions [] c r t = allowedDisruptions [defaultBudget] c r t \<and>
   allowedDisruptions [] c r t =
     Some (max 0 (\<lceil>real (total_pool_nodes c) * (10 / 100)\<rceil> - (int (deleting c) + int (notReady c))))"
proof -
  have a: "activeBudgets budgets r t \<noteq> {} \<longrightarrow>
      allowedDisruptions budgets c r t =
        Some (max 0 (Min (allowed_spec c ` activeBudgets budgets r t)))"
    using allowedDisruptions_active by blast
  have b: "\<forall>n. allowedDisruptions budgets c r t = Some n \<longrightarrow> 0 \<le> n"
    by (auto simp: allowedDisruptions_def Let_def split: option.splits if_splits)
  have c: "allowedDisruptions [] c r t = allowedDisruptions [defaultBudget] c r t"
    by (simp add: allowedDisruptions_def)
  have "allowedDisruptions [] c r t = Some (max 0 (Min (allowed_spec c ` {defaultBudget})))"
    using allowedDisruptions_active [of "[]" r t c] by (simp add: defaultBudget_active)
  then have d: "allowedDisruptions [] c r t =
     Some (max 0 (\<lceil>real (total_pool_nodes c) * (10 / 100)\<rceil> - (int (deleting c) + int (notReady c))))"
    by (simp add: allowed_spec_def defaultBudget_def)
  from a b c d show ?thesis by blast
qed

theorem allowedDisruptions_is_clamped_minimum_witness:
  "activeBudgets [exBudgetS2, exBudgetS3] Drifted 300 = {exBudgetS2} \<and>
   allowed_spec exCountsS2 exBudgetS2 = 4 \<and>
   allowedDisruptions [exBudgetS2, exBudgetS3] exCountsS2 Drifted 300 = Some 4 \<and>
   activeBudgets [exBudgetS2, exBudgetS3] Underutilized 300 = {exBudgetS3} \<and>
   allowedDisruptions [exBudgetS2, exBudgetS3] exCountsS2 Underutilized 300 = Some 0"
proof -
  have s3: "isActive Underutilized 300 exBudgetS3"
    by (simp add: isActive_def exBudgetS3_def exDaily_def Let_def)
  have a1: "activeBudgets [exBudgetS2, exBudgetS3] Drifted 300 = {exBudgetS2}"
    by (auto simp: activeBudgets_def isActive_def exBudgetS2_def exBudgetS3_def)
  have a2: "activeBudgets [exBudgetS2, exBudgetS3] Underutilized 300 = {exBudgetS3}"
    using s3 by (auto simp: activeBudgets_def isActive_def exBudgetS2_def)
  have v1: "allowed_spec exCountsS2 exBudgetS2 = 4"
    by (simp add: allowed_eq_spec [symmetric] allowed_def scaledNodes_def exCountsS2_def
          exBudgetS2_def)
  have v2: "allowed_spec exCountsS2 exBudgetS3 = 0"
    by (simp add: allowed_spec_def exCountsS2_def exBudgetS3_def)
  note d = allowedDisruptions_is_clamped_minimum
      [of "[exBudgetS2, exBudgetS3]" Drifted 300 exCountsS2]
  note u = allowedDisruptions_is_clamped_minimum
      [of "[exBudgetS2, exBudgetS3]" Underutilized 300 exCountsS2]
  from d a1 v1 have r1:
    "allowedDisruptions [exBudgetS2, exBudgetS3] exCountsS2 Drifted 300 = Some 4" by simp
  from u a2 v2 have r2:
    "allowedDisruptions [exBudgetS2, exBudgetS3] exCountsS2 Underutilized 300 = Some 0" by simp
  from a1 v1 r1 a2 r2 show ?thesis by blast
qed

section \<open>Properties of the drain under a termination grace period\<close>

lemma forceDelete_remaining:
  "terminationGracePeriod m = Some g \<Longrightarrow>
     set (remaining (forceDelete t m)) = {p \<in> set (remaining m). t < forceDeleteTime (drainStart m) g p}"
  by (auto simp: forceDelete_def due_def)

lemma forceDelete_forceDeleted:
  "terminationGracePeriod m = Some g \<Longrightarrow>
     set (forceDeleted (forceDelete t m)) =
       set (forceDeleted m) \<union>
       (\<lambda>p. \<lparr>deletedPod = podName p, deletedAt = t, grantedGrace = truncatedGrace g p\<rparr>) `
         {p \<in> set (remaining m). forceDeleteTime (drainStart m) g p \<le> t}"
  by (auto simp: forceDelete_def due_def)

lemma step_Draining_remaining:
  assumes "phase m = Draining" "\<not> instanceAlreadyGone m"
  shows "remaining (step t m) = remaining (forceDelete t m)"
    and "forceDeleted (step t m) = forceDeleted (forceDelete t m)"
  using assms by (simp_all add: step_def Let_def)

lemma step_Draining_elapsed:
  assumes "phase m = Draining" "\<not> instanceAlreadyGone m" "terminationGracePeriod m = Some g"
      and "drainStart m + g \<le> t"
  shows "phase (step t m) = CloudTerminating" "terminateRequestedAt (step t m) = Some t"
  using assms by (simp_all add: step_def Let_def graceElapsed_def)

text \<open>
  C3. While a node with a termination grace period drains, a step at the time \<open>drainStart +
  (terminationGracePeriod - terminationGracePeriodSeconds)\<close> of a pod, or later, force-deletes
  the pod if it is still there, whether or not a disruption budget blocks it or it is
  annotated do-not-disrupt; an earlier step leaves it. A pod whose grace period is within
  that of the node is granted its own, which ends when the grace period of the node ends; a
  pod that asks for more is granted the grace period of the node. A step when the grace
  period of the node has run out asks the cloud to terminate the instance.
\<close>

theorem forced_deletion_leaves_pod_its_grace:
  assumes "phase m = Draining" and "\<not> instanceAlreadyGone m"
      and "terminationGracePeriod m = Some g" and "p \<in> set (remaining m)"
  shows "(t < forceDeleteTime (drainStart m) g p \<longrightarrow> p \<in> set (remaining (step t m))) \<and>
         (forceDeleteTime (drainStart m) g p \<le> t \<longrightarrow>
            p \<notin> set (remaining (step t m)) \<and>
            \<lparr>deletedPod = podName p, deletedAt = t, grantedGrace = truncatedGrace g p\<rparr>
              \<in> set (forceDeleted (step t m))) \<and>
         (terminationGracePeriodSeconds p \<le> g \<longrightarrow>
            truncatedGrace g p = terminationGracePeriodSeconds p \<and>
            forceDeleteTime (drainStart m) g p + truncatedGrace g p = drainStart m + g) \<and>
         (g < terminationGracePeriodSeconds p \<longrightarrow>
            truncatedGrace g p = g \<and> forceDeleteTime (drainStart m) g p < drainStart m) \<and>
         (drainStart m + g \<le> t \<longrightarrow>
            phase (step t m) = CloudTerminating \<and> terminateRequestedAt (step t m) = Some t)"
proof -
  note rem = step_Draining_remaining [OF assms(1,2), of t]
  have a: "t < forceDeleteTime (drainStart m) g p \<longrightarrow> p \<in> set (remaining (step t m))"
    using assms(4) by (simp add: rem forceDelete_remaining [OF assms(3)])
  have b: "forceDeleteTime (drainStart m) g p \<le> t \<longrightarrow>
            p \<notin> set (remaining (step t m)) \<and>
            \<lparr>deletedPod = podName p, deletedAt = t, grantedGrace = truncatedGrace g p\<rparr>
              \<in> set (forceDeleted (step t m))"
    using assms(4)
    by (auto simp: rem forceDelete_remaining [OF assms(3)] forceDelete_forceDeleted [OF assms(3)])
  have c: "terminationGracePeriodSeconds p \<le> g \<longrightarrow>
            truncatedGrace g p = terminationGracePeriodSeconds p \<and>
            forceDeleteTime (drainStart m) g p + truncatedGrace g p = drainStart m + g"
    by (simp add: truncatedGrace_def forceDeleteTime_def)
  have d: "g < terminationGracePeriodSeconds p \<longrightarrow>
            truncatedGrace g p = g \<and> forceDeleteTime (drainStart m) g p < drainStart m"
    by (simp add: truncatedGrace_def forceDeleteTime_def)
  have e: "drainStart m + g \<le> t \<longrightarrow>
            phase (step t m) = CloudTerminating \<and> terminateRequestedAt (step t m) = Some t"
    using step_Draining_elapsed [OF assms(1,2,3)] by blast
  from a b c d e show ?thesis by blast
qed

lemma ex_step_4300:
  "step 4300 exDraining = exDraining\<lparr>remaining := [],
     forceDeleted := [\<lparr>deletedPod = ''P'', deletedAt = 4300, grantedGrace = 300\<rparr>]\<rparr>"
  by (simp add: step_def forceDelete_def due_def forceDeleteTime_def truncatedGrace_def
        graceElapsed_def stillTerminating_def exDraining_def exPod_def Let_def)

theorem forced_deletion_leaves_pod_its_grace_witness:
  "phase exDraining = Draining \<and> \<not> instanceAlreadyGone exDraining \<and>
   terminationGracePeriod exDraining = Some 3600 \<and> exPod \<in> set (remaining exDraining) \<and>
   doNotDisrupt exPod \<and> blockedByPDB exPod \<and>
   forceDeleteTime (drainStart exDraining) 3600 exPod = 4300 \<and>
   exPod \<in> set (remaining (step 4299 exDraining)) \<and>
   exPod \<notin> set (remaining (step 4300 exDraining)) \<and>
   \<lparr>deletedPod = ''P'', deletedAt = 4300, grantedGrace = 300\<rparr>
     \<in> set (forceDeleted (step 4300 exDraining)) \<and>
   phase (step 4300 exDraining) = Draining \<and>
   phase (step 4600 (step 4300 exDraining)) = CloudTerminating \<and>
   terminateRequestedAt (step 4600 (step 4300 exDraining)) = Some (drainStart exDraining + 3600)"
proof -
  have h: "phase exDraining = Draining" "\<not> instanceAlreadyGone exDraining"
    "terminationGracePeriod exDraining = Some 3600" "exPod \<in> set (remaining exDraining)"
    by (simp_all add: exDraining_def)
  have f: "forceDeleteTime (drainStart exDraining) 3600 exPod = 4300"
    by (simp add: forceDeleteTime_def exDraining_def exPod_def)
  have g: "truncatedGrace 3600 exPod = 300" "podName exPod = ''P''"
    "doNotDisrupt exPod" "blockedByPDB exPod"
    by (simp_all add: truncatedGrace_def exPod_def)
  have "4299 < forceDeleteTime (drainStart exDraining) 3600 exPod" using f by simp
  with forced_deletion_leaves_pod_its_grace [OF h, of 4299]
  have c1: "exPod \<in> set (remaining (step 4299 exDraining))" by blast
  have "forceDeleteTime (drainStart exDraining) 3600 exPod \<le> 4300" using f by simp
  with forced_deletion_leaves_pod_its_grace [OF h, of 4300]
  have "exPod \<notin> set (remaining (step 4300 exDraining)) \<and>
    \<lparr>deletedPod = podName exPod, deletedAt = 4300, grantedGrace = truncatedGrace 3600 exPod\<rparr>
     \<in> set (forceDeleted (step 4300 exDraining))" by blast
  then have "exPod \<notin> set (remaining (step 4300 exDraining)) \<and>
    \<lparr>deletedPod = ''P'', deletedAt = 4300, grantedGrace = 300\<rparr>
     \<in> set (forceDeleted (step 4300 exDraining))" unfolding g(1,2) .
  then have c2: "exPod \<notin> set (remaining (step 4300 exDraining))"
    and c3: "\<lparr>deletedPod = ''P'', deletedAt = 4300, grantedGrace = 300\<rparr>
     \<in> set (forceDeleted (step 4300 exDraining))" by blast+
  have c4: "phase (step 4300 exDraining) = Draining"
    by (simp add: ex_step_4300) (simp add: exDraining_def)
  have c5: "phase (step 4600 (step 4300 exDraining)) = CloudTerminating"
    "terminateRequestedAt (step 4600 (step 4300 exDraining)) = Some (drainStart exDraining + 3600)"
    by (simp_all add: ex_step_4300)
       (simp_all add: step_def forceDelete_def due_def forceDeleteTime_def truncatedGrace_def
        graceElapsed_def stillTerminating_def exDraining_def exPod_def Let_def)
  from h f g c1 c2 c3 c4 c5 show ?thesis by blast
qed

end
